theory Spec2Isabelle
  imports Main
begin

section \<open>Errors, responses and middleware outcomes\<close>

text \<open>
  The server is an Express application. A middleware either calls \<open>next()\<close>, calls
  \<open>next(error)\<close>, or writes a response; a route handler either writes a response or
  throws, and \<open>asyncHandler\<close> forwards what it throws to \<open>next\<close>. The final
  \<open>errorHandler\<close> turns every forwarded error into a response.

  The literal texts of the error messages are Portuguese strings with accents. Each one is
  a constructor of \<open>message\<close>:
  \<^item> \<open>TokenNaoFornecido\<close>: 'Token de autenticacao nao fornecido'
  \<^item> \<open>UsuarioNaoEncontradoOuInativo\<close>: 'Usuario nao encontrado ou inativo'
  \<^item> \<open>EmpresaInativa\<close>: 'Empresa inativa'
  \<^item> \<open>PlanoExpirou\<close>: 'Plano da empresa expirou'
  \<^item> \<open>TokenInvalido\<close>: 'Token invalido'
  \<^item> \<open>TokenExpirado\<close>: 'Token expirado'
  \<^item> \<open>TenantIdNaoEncontrado\<close>: 'Tenant ID nao encontrado'
  \<^item> \<open>EmpresaNaoEncontrada\<close>: 'Empresa nao encontrada'
  \<^item> \<open>CredenciaisInvalidas\<close>: 'Credenciais invalidas'
  \<^item> \<open>EmpresaInativaSuporte\<close>: 'Empresa inativa. Entre em contato com o suporte.'
  \<^item> \<open>PlanoExpirouRenove\<close>: 'Plano da empresa expirou. Renove sua assinatura.'
  \<^item> \<open>EmailEmUso\<close>: 'Email ja esta em uso'
  \<^item> \<open>LimiteDeContas t n\<close>: 'Limite de contas t atingido para esta empresa. Maximo: n'
  \<^item> \<open>LimiteDeContasAdmin t n\<close>: 'Limite de contas t atingido. Maximo: n'
  \<^item> \<open>RefreshTokenNaoFornecido\<close>: 'Refresh token nao fornecido'
  \<^item> \<open>UsuarioOuEmpresaInativo\<close>: 'Usuario ou empresa inativo'
  \<^item> \<open>RefreshTokenInvalido\<close>: 'Refresh token invalido'
\<close>

datatype message =
    TokenNaoFornecido
  | UsuarioNaoEncontradoOuInativo
  | EmpresaInativa
  | PlanoExpirou
  | TokenInvalido
  | TokenExpirado
  | TenantIdNaoEncontrado
  | EmpresaNaoEncontrada
  | CredenciaisInvalidas
  | EmpresaInativaSuporte
  | PlanoExpirouRenove
  | EmailEmUso
  | LimiteDeContas string int
  | LimiteDeContasAdmin string int
  | RefreshTokenNaoFornecido
  | UsuarioOuEmpresaInativo
  | RefreshTokenInvalido

text \<open>
  What the code can throw. \<open>AppError m c\<close> is \<open>new AppError(m, c)\<close> (message and
  statusCode); the two JWT errors are those of the jsonwebtoken library; \<open>TypeError\<close>
  is JavaScript's error for a property read or a call on \<open>undefined\<close> or \<open>null\<close>;
  \<open>PrismaClientKnownRequestError code\<close> and the other two are the errors the error
  handler recognises by name; \<open>OtherError\<close> is any error it does not recognise.
\<close>

datatype error =
    AppError message nat
  | JsonWebTokenError
  | TokenExpiredError
  | TypeError
  | PrismaClientValidationError
  | PrismaClientKnownRequestError string
  | ZodError
  | OtherError

section \<open>The store\<close>

text \<open>
  The Prisma tables the code reads and writes, as lists of rows (columns that the
  modelled code never touches are left out). Times are milliseconds since the epoch.
  \<open>auditFailure\<close> is the fault injected into the store: when it is \<open>Some e\<close>,
  \<open>prisma.auditLog.create\<close> rejects with \<open>e\<close>.
\<close>

record tenant =
  tenant_id :: string
  companyName :: string
  planType :: string
  tenant_isActive :: bool
  expiresAt :: "int option"
  maxSimpleAccounts :: int
  maxCompositeAccounts :: int
  maxManagerialAccounts :: int

record user =
  user_id :: string
  user_email :: string
  user_name :: "string option"
  passwordHash :: string
  user_accountType :: string
  user_isActive :: bool
  user_tenantId :: string
  lastLogin :: "int option"

record file_row =
  file_id :: string
  filename :: string
  originalName :: string
  mimetype :: string
  file_size :: int
  file_path :: string
  file_tenantId :: string
  uploadedBy :: string
  createdAt :: int

record client =
  client_id :: string
  client_tenantId :: string

record project =
  project_id :: string
  project_tenantId :: string

datatype detail = Str string | Num int

record audit_log =
  audit_userId :: string
  audit_tenantId :: string
  action :: string
  resourceType :: string
  resourceId :: string
  details :: "(string \<times> detail) list"

record db =
  tenants :: "tenant list"
  users :: "user list"
  files :: "file_row list"
  client_rows :: "client list"
  project_rows :: "project list"
  auditLogs :: "audit_log list"
  auditFailure :: "error option"

section \<open>Tokens\<close>

text \<open>
  A JSON web token, abstractly: its claims and the secret its signature was made with.
  The signature is ideal: a token verifies under a secret exactly when it was signed
  with that secret. \<open>Malformed\<close> is any value that does not decode as a token.
  \<open>iat\<close> and \<open>exp\<close> are in seconds, as the library writes them.
\<close>

record claims =
  claim_userId :: string
  claim_tenantId :: string
  claim_accountType :: "string option"
  claim_type :: "string option"
  iat :: int
  exp :: int

datatype token = Malformed | Signed claims string

text \<open>The environment variables the modelled code reads.\<close>

record env =
  JWT_SECRET :: "string option"
  JWT_REFRESH_SECRET :: "string option"

text \<open>The resource classes of \<open>checkAccountLimits\<close>; account tiers are plain strings.\<close>

datatype resource_type = Clients | Projects | Storage

text \<open>The items of the file listing and of the upload answer, and the pagination block.\<close>

record file_item =
  item_id :: string
  item_filename :: string
  item_originalName :: string
  item_mimetype :: string
  item_size :: int
  item_url :: string
  item_uploadedBy :: "string option"
  item_createdAt :: "int option"

record pagination =
  page :: int
  limit :: int
  total :: int
  pages :: "int option"

record user_info =
  info_id :: string
  info_email :: string
  info_name :: "string option"
  info_accountType :: string
  info_tenantId :: "string option"
  info_tenant :: "tenant option"



text \<open>
  The JSON bodies the modelled code writes, one constructor per shape (the fixed
  \<open>error\<close>/\<open>code\<close>/\<open>message\<close> texts are part of the constructor):
  \<^item> \<open>AppErrorBody m\<close>: \<open>{status: 'error', message: m, code: 'AppError'}\<close>
  \<^item> \<open>ValidationBody\<close>, \<open>DuplicateBody\<close>, \<open>NotFoundBody\<close>, \<open>ZodBody\<close>,
    \<open>JwtInvalidBody\<close>, \<open>JwtExpiredBody\<close>, \<open>ServerErrorBody\<close>: the other
    bodies of \<open>errorHandler\<close> (the development-only \<open>details\<close> and \<open>stack\<close>
    fields are left out)
  \<^item> \<open>UserNotAuthenticated\<close>: code \<open>USER_NOT_AUTHENTICATED\<close>
  \<^item> \<open>AccountAccessDenied currentAccount requiredModule allowedModules suggestedAccounts\<close>:
    code \<open>ACCOUNT_ACCESS_DENIED\<close>
  \<^item> \<open>InternalError\<close>: \<open>{error: 'Erro interno do servidor', code: 'INTERNAL_ERROR'}\<close>
  \<^item> \<open>InvalidAuth\<close>: code \<open>INVALID_AUTH\<close>
  \<^item> \<open>AccountLimitExceeded currentAccount resourceType currentCount maxAllowed suggestedAccounts\<close>:
    code \<open>ACCOUNT_LIMIT_EXCEEDED\<close>
  \<^item> \<open>NoFileBody\<close>: \<open>{error: 'Nenhum arquivo foi enviado'}\<close>
  \<^item> \<open>FileUploadedBody item\<close>: \<open>{message: 'Arquivo enviado com sucesso', file: item}\<close>
  \<^item> \<open>FileNotFoundBody\<close>: \<open>{error: 'Arquivo nao encontrado'}\<close>
  \<^item> \<open>FileNotOnDiskBody\<close>: \<open>{error: 'Arquivo nao encontrado no sistema'}\<close>
  \<^item> \<open>FileContent mimetype originalName content\<close>: the file sent by \<open>res.sendFile\<close>
    with its Content-Type and Content-Disposition headers
  \<^item> \<open>FilesListBody items pagination\<close>: the answer of the file listing
  \<^item> \<open>LoginBody token refreshToken user\<close>, \<open>RegisterBody user\<close>,
    \<open>RefreshBody token\<close>: the answers of the auth routes
\<close>

datatype body =
    AppErrorBody message
  | ValidationBody
  | DuplicateBody
  | NotFoundBody
  | ZodBody
  | JwtInvalidBody
  | JwtExpiredBody
  | ServerErrorBody
  | UserNotAuthenticated
  | AccountAccessDenied string string "string list" "string list"
  | InternalError
  | InvalidAuth
  | AccountLimitExceeded string resource_type int int "string list"
  | NoFileBody
  | FileUploadedBody file_item
  | FileNotFoundBody
  | FileNotOnDiskBody
  | FileContent string string string
  | FilesListBody "file_item list" pagination
  | LoginBody token token user_info
  | RegisterBody user_info
  | RefreshBody token

record response =
  status :: nat
  body :: body

datatype 'a outcome =
    Next 'a
  | NextError error
  | Respond response

text \<open>\<open>req.user\<close>, as \<open>authenticateToken\<close> sets it (interface \<open>TokenPayload\<close>).\<close>

record req_user =
  userId :: string
  tenantId :: string
  accountType :: string

text \<open>\<open>errorHandler\<close>: the checks in the source's order.\<close>

fun errorHandler :: "error \<Rightarrow> response" where
  "errorHandler (AppError m c) = \<lparr>status = c, body = AppErrorBody m\<rparr>"
| "errorHandler PrismaClientValidationError = \<lparr>status = 400, body = ValidationBody\<rparr>"
| "errorHandler (PrismaClientKnownRequestError code) =
     (if code = ''P2002'' then \<lparr>status = 409, body = DuplicateBody\<rparr>
      else if code = ''P2025'' then \<lparr>status = 404, body = NotFoundBody\<rparr>
      else \<lparr>status = 500, body = ServerErrorBody\<rparr>)"
| "errorHandler ZodError = \<lparr>status = 400, body = ZodBody\<rparr>"
| "errorHandler JsonWebTokenError = \<lparr>status = 401, body = JwtInvalidBody\<rparr>"
| "errorHandler TokenExpiredError = \<lparr>status = 401, body = JwtExpiredBody\<rparr>"
| "errorHandler TypeError = \<lparr>status = 500, body = ServerErrorBody\<rparr>"
| "errorHandler OtherError = \<lparr>status = 500, body = ServerErrorBody\<rparr>"

section \<open>The capability gate (planAccess middleware)\<close>

text \<open>
  \<open>ACCOUNT_MODULES\<close> is an object literal keyed by the tier name; \<open>Object.entries\<close>
  lists its entries in the order written, so it is an association list. Indexing it
  with a string that is none of the three keys gives \<open>undefined\<close> (or, for a name
  inherited from \<open>Object.prototype\<close>, a value with no \<open>includes\<close> method); in both
  cases the call \<open>allowedModules.includes(...)\<close> throws a TypeError, which is the
  \<open>None\<close> branch below.
\<close>

definition ACCOUNT_MODULES :: "(string \<times> string list) list" where
  "ACCOUNT_MODULES =
    [(''SIMPLE'',
        [''crm'', ''clients'', ''projects'', ''tasks'', ''billing'', ''basic_settings'']),
     (''COMPOSITE'',
        [''crm'', ''clients'', ''projects'', ''tasks'', ''billing'', ''cash_flow'',
         ''transactions'', ''dashboard'', ''basic_settings'']),
     (''MANAGERIAL'',
        [''crm'', ''clients'', ''projects'', ''tasks'', ''billing'', ''cash_flow'',
         ''transactions'', ''dashboard'', ''user_management'', ''advanced_settings'',
         ''audit_logs''])]"

text \<open>
  \<open>getSuggestedAccounts\<close>: the \<open>forEach\<close> over \<open>Object.entries(ACCOUNT_MODULES)\<close>
  pushes each tier whose module list includes the module, in table order.
\<close>

fun suggest_loop :: "(string \<times> string list) list \<Rightarrow> string \<Rightarrow> string list \<Rightarrow> string list" where
  "suggest_loop [] requiredModule suggestions = suggestions"
| "suggest_loop ((acct, modules) # rest) requiredModule suggestions =
     suggest_loop rest requiredModule
       (if requiredModule \<in> set modules then suggestions @ [acct] else suggestions)"

definition getSuggestedAccounts :: "string \<Rightarrow> string list" where
  "getSuggestedAccounts requiredModule = suggest_loop ACCOUNT_MODULES requiredModule []"

text \<open>
  \<open>checkAccountAccess\<close>: the body of the \<open>try\<close> block, where a thrown error is
  \<open>Inl\<close>, and the middleware with its \<open>catch\<close>, which answers 500 for every error.
\<close>

definition checkAccountAccess_try :: "string \<Rightarrow> req_user option \<Rightarrow> error + unit outcome" where
  "checkAccountAccess_try requiredModule user =
     (case user of
        None \<Rightarrow> Inr (Respond \<lparr>status = 401, body = UserNotAuthenticated\<rparr>)
      | Some u \<Rightarrow>
          (case map_of ACCOUNT_MODULES (accountType u) of
             None \<Rightarrow> Inl TypeError
           | Some allowedModules \<Rightarrow>
               if requiredModule \<notin> set allowedModules
               then Inr (Respond \<lparr>status = 403,
                      body = AccountAccessDenied (accountType u) requiredModule allowedModules
                               (getSuggestedAccounts requiredModule)\<rparr>)
               else Inr (Next ())))"

definition checkAccountAccess :: "string \<Rightarrow> req_user option \<Rightarrow> unit outcome" where
  "checkAccountAccess requiredModule user =
     (case checkAccountAccess_try requiredModule user of
        Inl e \<Rightarrow> Respond \<lparr>status = 500, body = InternalError\<rparr>
      | Inr r \<Rightarrow> r)"

section \<open>Store queries\<close>

text \<open>
  \<open>findUnique\<close> by primary key, and the \<open>include: {tenant: ...}\<close> of a user
  query, which follows the user's \<open>tenantId\<close>.
\<close>

definition user_findUnique :: "db \<Rightarrow> string \<Rightarrow> user option" where
  "user_findUnique d i = find (\<lambda>u. user_id u = i) (users d)"

definition tenant_findUnique :: "db \<Rightarrow> string \<Rightarrow> tenant option" where
  "tenant_findUnique d i = find (\<lambda>t. tenant_id t = i) (tenants d)"

definition user_tenant :: "db \<Rightarrow> user \<Rightarrow> tenant option" where
  "user_tenant d u = tenant_findUnique d (user_tenantId u)"

text \<open>
  \<open>t.expiresAt && t.expiresAt < new Date()\<close>: an absent expiry never expires.
\<close>

definition expired :: "tenant \<Rightarrow> int \<Rightarrow> bool" where
  "expired t now = (case expiresAt t of None \<Rightarrow> False | Some e \<Rightarrow> e < now)"

section \<open>Signing and verifying tokens\<close>

text \<open>
  \<open>process.env.X || default\<close>: an unset or empty variable gives the default.
\<close>

definition jwt_secret :: "env \<Rightarrow> string" where
  "jwt_secret e =
     (case JWT_SECRET e of
        None \<Rightarrow> ''your_jwt_secret_key''
      | Some s \<Rightarrow> if s = [] then ''your_jwt_secret_key'' else s)"

definition jwt_refresh_secret :: "env \<Rightarrow> string" where
  "jwt_refresh_secret e =
     (case JWT_REFRESH_SECRET e of
        None \<Rightarrow> ''your_refresh_secret_key_super_secure_2024_production''
      | Some s \<Rightarrow>
          if s = [] then ''your_refresh_secret_key_super_secure_2024_production'' else s)"

text \<open>
  \<open>jwt.sign(payload, secret, {expiresIn})\<close> stamps \<open>iat\<close> with the current second
  and \<open>exp\<close> with \<open>iat\<close> plus the lifetime. \<open>jwt.verify(token, secret)\<close> rejects
  a malformed token or a bad signature with JsonWebTokenError, then an elapsed
  \<open>exp\<close> with TokenExpiredError.
\<close>

definition jwt_sign :: "claims \<Rightarrow> string \<Rightarrow> int \<Rightarrow> int \<Rightarrow> token" where
  "jwt_sign payload secret expiresIn now =
     Signed (payload\<lparr>iat := now div 1000, exp := now div 1000 + expiresIn\<rparr>) secret"

definition jwt_verify :: "token \<Rightarrow> string \<Rightarrow> int \<Rightarrow> error + claims" where
  "jwt_verify tok secret now =
     (case tok of
        Malformed \<Rightarrow> Inl JsonWebTokenError
      | Signed c k \<Rightarrow>
          if k \<noteq> secret then Inl JsonWebTokenError
          else if exp c \<le> now div 1000 then Inl TokenExpiredError
          else Inr c)"

definition h24 :: int where "h24 = 24 * 60 * 60"

definition d30 :: int where "d30 = 30 * 24 * 60 * 60"

section \<open>authenticateToken (middleware/auth.ts)\<close>

text \<open>
  The argument \<open>token\<close> is \<open>authHeader?.split(' ')[1]\<close>: \<open>None\<close> when the header
  is absent or has no second field. The \<open>try\<close> block first, a thrown error being
  \<open>Inl\<close>; \<open>user.tenant\<close> is never null under the foreign key of the schema, and
  reading a field of a null tenant would throw a TypeError.
\<close>

definition authenticateToken_try :: "env \<Rightarrow> db \<Rightarrow> int \<Rightarrow> token option \<Rightarrow> error + req_user" where
  "authenticateToken_try e d now token =
     (case token of
        None \<Rightarrow> Inl (AppError TokenNaoFornecido 401)
      | Some tok \<Rightarrow>
          (case jwt_verify tok (jwt_secret e) now of
             Inl err \<Rightarrow> Inl err
           | Inr decoded \<Rightarrow>
               (case user_findUnique d (claim_userId decoded) of
                  None \<Rightarrow> Inl (AppError UsuarioNaoEncontradoOuInativo 401)
                | Some u \<Rightarrow>
                    if \<not> user_isActive u then Inl (AppError UsuarioNaoEncontradoOuInativo 401)
                    else
                      (case user_tenant d u of
                         None \<Rightarrow> Inl TypeError
                       | Some t \<Rightarrow>
                           if \<not> tenant_isActive t then Inl (AppError EmpresaInativa 403)
                           else if expired t now then Inl (AppError PlanoExpirou 403)
                           else Inr \<lparr>userId = user_id u, tenantId = user_tenantId u,
                                     accountType = user_accountType u\<rparr>))))"

text \<open>
  The \<open>catch\<close>: in the jsonwebtoken library TokenExpiredError is a subclass of
  JsonWebTokenError, so \<open>error instanceof jwt.JsonWebTokenError\<close> holds for both and
  the first branch takes them.
\<close>

definition instanceof_JsonWebTokenError :: "error \<Rightarrow> bool" where
  "instanceof_JsonWebTokenError err = (err = JsonWebTokenError \<or> err = TokenExpiredError)"

definition instanceof_TokenExpiredError :: "error \<Rightarrow> bool" where
  "instanceof_TokenExpiredError err = (err = TokenExpiredError)"

definition authenticateToken :: "env \<Rightarrow> db \<Rightarrow> int \<Rightarrow> token option \<Rightarrow> req_user outcome" where
  "authenticateToken e d now token =
     (case authenticateToken_try e d now token of
        Inr u \<Rightarrow> Next u
      | Inl err \<Rightarrow>
          if instanceof_JsonWebTokenError err then NextError (AppError TokenInvalido 401)
          else if instanceof_TokenExpiredError err then NextError (AppError TokenExpirado 401)
          else NextError err)"

section \<open>tenantMiddleware (middleware/tenant.ts)\<close>

text \<open>\<open>!req.user?.tenantId\<close> holds for a missing user and for an empty tenant id.\<close>

definition tenantMiddleware :: "db \<Rightarrow> int \<Rightarrow> req_user option \<Rightarrow> tenant outcome" where
  "tenantMiddleware d now user =
     (case user of
        None \<Rightarrow> NextError (AppError TenantIdNaoEncontrado 401)
      | Some u \<Rightarrow>
          if tenantId u = [] then NextError (AppError TenantIdNaoEncontrado 401)
          else
            (case tenant_findUnique d (tenantId u) of
               None \<Rightarrow> NextError (AppError EmpresaNaoEncontrada 404)
             | Some t \<Rightarrow>
                 if \<not> tenant_isActive t then NextError (AppError EmpresaInativa 403)
                 else if expired t now then NextError (AppError PlanoExpirou 403)
                 else Next t))"

section \<open>The quota check of the planAccess middleware\<close>

text \<open>
  \<open>ACCOUNT_LIMITS\<close>, keyed by tier name like \<open>ACCOUNT_MODULES\<close>.

  Indexing an object literal with a string follows the prototype chain: a key of the
  literal gives its value, one of the property names of \<open>Object.prototype\<close> gives
  the inherited function or object, and every other string gives \<open>undefined\<close>.
\<close>

datatype 'a js_property = Own 'a | Inherited | Undefined

definition object_prototype_names :: "string list" where
  "object_prototype_names =
     [''constructor'', ''__defineGetter__'', ''__defineSetter__'', ''hasOwnProperty'',
      ''__lookupGetter__'', ''__lookupSetter__'', ''isPrototypeOf'', ''propertyIsEnumerable'',
      ''toString'', ''valueOf'', ''__proto__'', ''toLocaleString'']"

definition js_index :: "(string \<times> 'a) list \<Rightarrow> string \<Rightarrow> 'a js_property" where
  "js_index obj k =
     (case map_of obj k of
        Some v \<Rightarrow> Own v
      | None \<Rightarrow> if k \<in> set object_prototype_names then Inherited else Undefined)"

record features =
  dashboard_financial :: bool
  cash_flow :: bool
  user_management :: bool
  advanced_reports :: bool

record account_limits =
  maxClients :: int
  maxProjects :: int
  maxStorage :: int
  limit_features :: features

definition ACCOUNT_LIMITS :: "(string \<times> account_limits) list" where
  "ACCOUNT_LIMITS =
    [(''SIMPLE'',
        \<lparr>maxClients = 50, maxProjects = 25, maxStorage = 1024 * 1024 * 100,
         limit_features = \<lparr>dashboard_financial = False, cash_flow = False,
                            user_management = False, advanced_reports = False\<rparr>\<rparr>),
     (''COMPOSITE'',
        \<lparr>maxClients = 200, maxProjects = 100, maxStorage = 1024 * 1024 * 500,
         limit_features = \<lparr>dashboard_financial = True, cash_flow = True,
                            user_management = False, advanced_reports = False\<rparr>\<rparr>),
     (''MANAGERIAL'',
        \<lparr>maxClients = - 1, maxProjects = - 1, maxStorage = 1024 * 1024 * 1024 * 5,
         limit_features = \<lparr>dashboard_financial = True, cash_flow = True,
                            user_management = True, advanced_reports = True\<rparr>\<rparr>)]"

definition accountLevels :: "(string \<times> int) list" where
  "accountLevels = [(''SIMPLE'', 1), (''COMPOSITE'', 2), (''MANAGERIAL'', 3)]"

text \<open>
  \<open>getSuggestedAccountsForLimit\<close>: the tiers of a higher level; for a tier that is
  no key of \<open>accountLevels\<close>, \<open>currentLevel\<close> is \<open>undefined\<close> or an inherited
  function, and no comparison \<open>level > currentLevel\<close> holds.
\<close>

definition getSuggestedAccountsForLimit :: "resource_type \<Rightarrow> string \<Rightarrow> string list" where
  "getSuggestedAccountsForLimit rt currentAccount =
     (case map_of accountLevels currentAccount of
        None \<Rightarrow> []
      | Some currentLevel \<Rightarrow>
          map fst (filter (\<lambda>(acct, level). level > currentLevel) accountLevels))"

text \<open>
  The usage the middleware reads from the store for a tenant, and the limit it takes
  from the tier's entry: the two halves of each \<open>switch\<close> case. A stored file size
  is a non-null integer, so \<open>file.size || 0\<close> is the size.
\<close>

definition currentCount_of :: "db \<Rightarrow> resource_type \<Rightarrow> string \<Rightarrow> int" where
  "currentCount_of d rt tid =
     (case rt of
        Clients \<Rightarrow> int (length (filter (\<lambda>c. client_tenantId c = tid) (client_rows d)))
      | Projects \<Rightarrow> int (length (filter (\<lambda>p. project_tenantId p = tid) (project_rows d)))
      | Storage \<Rightarrow>
          foldl (\<lambda>total f. total + file_size f) 0
            (filter (\<lambda>f. file_tenantId f = tid) (files d)))"

definition maxAllowed_of :: "account_limits \<Rightarrow> resource_type \<Rightarrow> int" where
  "maxAllowed_of limits rt =
     (case rt of
        Clients \<Rightarrow> maxClients limits
      | Projects \<Rightarrow> maxProjects limits
      | Storage \<Rightarrow> maxStorage limits)"

text \<open>
  \<open>checkAccountLimits\<close>, the body of its \<open>try\<close> block. For a tier that is no key
  of \<open>ACCOUNT_LIMITS\<close>: when \<open>limits\<close> is \<open>undefined\<close>, reading its field throws
  a TypeError; when it is inherited from \<open>Object.prototype\<close>, the field read gives
  \<open>undefined\<close>, the comparison \<open>currentCount >= maxAllowed\<close> is false and
  \<open>next()\<close> is called.
\<close>

definition checkAccountLimits_try :: "resource_type \<Rightarrow> db \<Rightarrow> req_user option \<Rightarrow> error + unit outcome" where
  "checkAccountLimits_try rt d user =
     (case user of
        None \<Rightarrow> Inr (Respond \<lparr>status = 401, body = InvalidAuth\<rparr>)
      | Some u \<Rightarrow>
          if tenantId u = [] \<or> accountType u = []
          then Inr (Respond \<lparr>status = 401, body = InvalidAuth\<rparr>)
          else
            (case js_index ACCOUNT_LIMITS (accountType u) of
               Undefined \<Rightarrow> Inl TypeError
             | Inherited \<Rightarrow> Inr (Next ())
             | Own limits \<Rightarrow>
                 (let currentCount = currentCount_of d rt (tenantId u);
                      maxAllowed = maxAllowed_of limits rt
                  in if maxAllowed \<noteq> - 1 \<and> currentCount \<ge> maxAllowed
                     then Inr (Respond \<lparr>status = 403,
                            body = AccountLimitExceeded (accountType u) rt currentCount maxAllowed
                                     (getSuggestedAccountsForLimit rt (accountType u))\<rparr>)
                     else Inr (Next ()))))"

definition checkAccountLimits :: "resource_type \<Rightarrow> db \<Rightarrow> req_user option \<Rightarrow> unit outcome" where
  "checkAccountLimits rt d user =
     (case checkAccountLimits_try rt d user of
        Inl e \<Rightarrow> Respond \<lparr>status = 500, body = InternalError\<rparr>
      | Inr r \<Rightarrow> r)"

section \<open>The audit recorder\<close>

text \<open>
  \<open>prisma.auditLog.create\<close> appends the record or rejects; \<open>createAuditLog\<close>
  (utils/AppError) wraps it in a \<open>try\<close> whose \<open>catch\<close> only logs.
\<close>

definition auditLog_create :: "db \<Rightarrow> audit_log \<Rightarrow> error + db" where
  "auditLog_create d a =
     (case auditFailure d of
        Some e \<Rightarrow> Inl e
      | None \<Rightarrow> Inr (d\<lparr>auditLogs := auditLogs d @ [a]\<rparr>))"

definition createAuditLog ::
  "db \<Rightarrow> string \<Rightarrow> string \<Rightarrow> string \<Rightarrow> string \<Rightarrow> string \<Rightarrow> (string \<times> detail) list \<Rightarrow> db" where
  "createAuditLog d uid tid act rtype rid dets =
     (case auditLog_create d
             \<lparr>audit_userId = uid, audit_tenantId = tid, action = act, resourceType = rtype,
              resourceId = rid, details = dets\<rparr> of
        Inl e \<Rightarrow> d
      | Inr d' \<Rightarrow> d')"

text \<open>
  \<open>asyncHandler\<close> passes what the handler throws to \<open>next\<close>, and \<open>errorHandler\<close>
  is the last middleware of the application: the response of a route handler.
\<close>

definition asyncHandler :: "error + response \<Rightarrow> response" where
  "asyncHandler r = (case r of Inl e \<Rightarrow> errorHandler e | Inr resp \<Rightarrow> resp)"

section \<open>The upload routes\<close>

text \<open>
  \<open>req.file\<close> as multer leaves it (\<open>None\<close> when no file came with the request).
  The store generates the id of a new row; it is the argument \<open>newId\<close>.
\<close>

record multer_file =
  mf_filename :: string
  mf_originalname :: string
  mf_mimetype :: string
  mf_size :: int
  mf_path :: string

definition file_url :: "string \<Rightarrow> string" where
  "file_url i = ''/api/upload/file/'' @ i"

text \<open>
  POST /api/upload/single. The audit record is written with \<open>prisma.auditLog.create\<close>
  directly: a rejection is thrown out of the handler, after the file row was created.
\<close>

definition upload_single ::
  "db \<Rightarrow> int \<Rightarrow> string \<Rightarrow> req_user \<Rightarrow> multer_file option \<Rightarrow> db \<times> (error + response)" where
  "upload_single d now newId u reqFile =
     (case reqFile of
        None \<Rightarrow> (d, Inr \<lparr>status = 400, body = NoFileBody\<rparr>)
      | Some f \<Rightarrow>
          (let fileRecord =
                 \<lparr>file_id = newId, filename = mf_filename f, originalName = mf_originalname f,
                  mimetype = mf_mimetype f, file_size = mf_size f, file_path = mf_path f,
                  file_tenantId = tenantId u, uploadedBy = userId u, createdAt = now\<rparr>;
               d1 = d\<lparr>files := files d @ [fileRecord]\<rparr>
           in case auditLog_create d1
                     \<lparr>audit_userId = userId u, audit_tenantId = tenantId u,
                      action = ''FILE_UPLOAD'', resourceType = ''FILE'',
                      resourceId = file_id fileRecord,
                      details = [(''filename'', Str (mf_originalname f)),
                                 (''size'', Num (mf_size f)),
                                 (''mimetype'', Str (mf_mimetype f))]\<rparr> of
                Inl e \<Rightarrow> (d1, Inl e)
              | Inr d2 \<Rightarrow>
                  (d2, Inr \<lparr>status = 200,
                     body = FileUploadedBody
                       \<lparr>item_id = file_id fileRecord, item_filename = filename fileRecord,
                        item_originalName = originalName fileRecord,
                        item_mimetype = mimetype fileRecord, item_size = file_size fileRecord,
                        item_url = file_url (file_id fileRecord),
                        item_uploadedBy = None, item_createdAt = None\<rparr>\<rparr>)))"








section \<open>The auth routes\<close>

text \<open>
  The handlers take the request body after \<open>loginSchema.parse\<close> or
  \<open>registerSchema.parse\<close>. \<open>bcrypt_compare\<close> and \<open>bcrypt_hash\<close> stand for the
  bcryptjs calls, \<open>ip\<close> for \<open>req.ip\<close>.
\<close>

definition access_claims :: "user \<Rightarrow> claims" where
  "access_claims u =
     \<lparr>claim_userId = user_id u, claim_tenantId = user_tenantId u,
      claim_accountType = Some (user_accountType u), claim_type = None, iat = 0, exp = 0\<rparr>"

definition refresh_claims :: "user \<Rightarrow> claims" where
  "refresh_claims u =
     \<lparr>claim_userId = user_id u, claim_tenantId = user_tenantId u,
      claim_accountType = None, claim_type = Some ''refresh'', iat = 0, exp = 0\<rparr>"

definition user_update_lastLogin :: "db \<Rightarrow> string \<Rightarrow> int \<Rightarrow> db" where
  "user_update_lastLogin d i now =
     d\<lparr>users := map (\<lambda>u. if user_id u = i then u\<lparr>lastLogin := Some now\<rparr> else u) (users d)\<rparr>"

text \<open>POST /api/auth/login.\<close>

definition login ::
  "env \<Rightarrow> db \<Rightarrow> int \<Rightarrow> (string \<Rightarrow> string \<Rightarrow> bool) \<Rightarrow> string \<Rightarrow> string \<Rightarrow> string
     \<Rightarrow> db \<times> (error + response)" where
  "login e d now bcrypt_compare ip em password =
     (case find (\<lambda>u. user_email u = em \<and> user_isActive u) (users d) of
        None \<Rightarrow> (d, Inl (AppError CredenciaisInvalidas 401))
      | Some u \<Rightarrow>
          (case user_tenant d u of
             None \<Rightarrow> (d, Inl TypeError)
           | Some t \<Rightarrow>
               if \<not> tenant_isActive t then (d, Inl (AppError EmpresaInativaSuporte 403))
               else if expired t now then (d, Inl (AppError PlanoExpirouRenove 403))
               else if \<not> bcrypt_compare password (passwordHash u)
               then (d, Inl (AppError CredenciaisInvalidas 401))
               else
                 (let accessToken = jwt_sign (access_claims u) (jwt_secret e) h24 now;
                      refreshToken = jwt_sign (refresh_claims u) (jwt_refresh_secret e) d30 now;
                      d1 = user_update_lastLogin d (user_id u) now;
                      d2 = createAuditLog d1 (user_id u) (user_tenantId u) ''LOGIN'' ''USER''
                             (user_id u) [(''email'', Str (user_email u)), (''ip'', Str ip)]
                  in (d2, Inr \<lparr>status = 200,
                        body = LoginBody accessToken refreshToken
                                 \<lparr>info_id = user_id u, info_email = user_email u,
                                  info_name = user_name u,
                                  info_accountType = user_accountType u,
                                  info_tenantId = Some (user_tenantId u),
                                  info_tenant = Some t\<rparr>\<rparr>))))"

text \<open>
  POST /api/auth/register. \<open>maxAllowed\<close> starts at 0 and the \<open>switch\<close> sets it
  for the three tier names (the schema admits no other).
\<close>

definition register_maxAllowed :: "tenant \<Rightarrow> string \<Rightarrow> int" where
  "register_maxAllowed t acct =
     (if acct = ''SIMPLE'' then maxSimpleAccounts t
      else if acct = ''COMPOSITE'' then maxCompositeAccounts t
      else if acct = ''MANAGERIAL'' then maxManagerialAccounts t
      else 0)"

definition register_currentCount :: "db \<Rightarrow> string \<Rightarrow> string \<Rightarrow> int" where
  "register_currentCount d tid acct =
     int (length (filter (\<lambda>u. user_tenantId u = tid \<and> user_accountType u = acct) (users d)))"

definition register ::
  "db \<Rightarrow> (string \<Rightarrow> string) \<Rightarrow> string \<Rightarrow> string \<Rightarrow> string \<Rightarrow> string \<Rightarrow> string \<Rightarrow> string
     \<Rightarrow> db \<times> (error + response)" where
  "register d bcrypt_hash newId em password nm tid acct =
     (case find (\<lambda>u. user_email u = em) (users d) of
        Some existingUser \<Rightarrow> (d, Inl (AppError EmailEmUso 409))
      | None \<Rightarrow>
          (case tenant_findUnique d tid of
             None \<Rightarrow> (d, Inl (AppError EmpresaNaoEncontrada 404))
           | Some t \<Rightarrow>
               if \<not> tenant_isActive t then (d, Inl (AppError EmpresaInativa 403))
               else
                 (let currentCount = register_currentCount d tid acct;
                      maxAllowed = register_maxAllowed t acct
                  in if maxAllowed \<noteq> - 1 \<and> currentCount \<ge> maxAllowed
                     then (d, Inl (AppError (LimiteDeContas acct maxAllowed) 403))
                     else
                       (let u = \<lparr>user_id = newId, user_email = em, user_name = Some nm,
                                 passwordHash = bcrypt_hash password, user_accountType = acct,
                                 user_isActive = True, user_tenantId = tid, lastLogin = None\<rparr>;
                            d1 = d\<lparr>users := users d @ [u]\<rparr>;
                            d2 = createAuditLog d1 (user_id u) tid ''REGISTER'' ''USER''
                                   (user_id u)
                                   [(''email'', Str (user_email u)), (''accountType'', Str acct)]
                        in (d2, Inr \<lparr>status = 201,
                              body = RegisterBody
                                       \<lparr>info_id = user_id u, info_email = user_email u,
                                        info_name = user_name u,
                                        info_accountType = user_accountType u,
                                        info_tenantId = None, info_tenant = None\<rparr>\<rparr>)))))"

text \<open>
  POST /api/auth/refresh. The check for a missing token is outside the \<open>try\<close>; every
  error thrown inside it, the handler's own AppErrors included, is caught and replaced
  by 'Refresh token invalido'.
\<close>

definition refresh_try :: "env \<Rightarrow> db \<Rightarrow> int \<Rightarrow> token \<Rightarrow> error + response" where
  "refresh_try e d now refreshToken =
     (case jwt_verify refreshToken (jwt_refresh_secret e) now of
        Inl err \<Rightarrow> Inl err
      | Inr decoded \<Rightarrow>
          if claim_type decoded \<noteq> Some ''refresh'' then Inl (AppError TokenInvalido 401)
          else
            (case user_findUnique d (claim_userId decoded) of
               None \<Rightarrow> Inl (AppError UsuarioOuEmpresaInativo 401)
             | Some u \<Rightarrow>
                 if \<not> user_isActive u then Inl (AppError UsuarioOuEmpresaInativo 401)
                 else
                   (case user_tenant d u of
                      None \<Rightarrow> Inl TypeError
                    | Some t \<Rightarrow>
                        if \<not> tenant_isActive t then Inl (AppError UsuarioOuEmpresaInativo 401)
                        else Inr \<lparr>status = 200,
                               body = RefreshBody
                                 (jwt_sign (access_claims u) (jwt_secret e) h24 now)\<rparr>)))"

definition refresh :: "env \<Rightarrow> db \<Rightarrow> int \<Rightarrow> token option \<Rightarrow> error + response" where
  "refresh e d now refreshToken =
     (case refreshToken of
        None \<Rightarrow> Inl (AppError RefreshTokenNaoFornecido 401)
      | Some tok \<Rightarrow>
          (case refresh_try e d now tok of
             Inl err \<Rightarrow> Inl (AppError RefreshTokenInvalido 401)
           | Inr resp \<Rightarrow> Inr resp))"

text \<open>
  POST /api/admin/tenants/:id/users (behind \<open>requireAdmin\<close>): the same per-tier
  count and limit as the registration, checked before the email.
\<close>

definition admin_create_user ::
  "db \<Rightarrow> (string \<Rightarrow> string) \<Rightarrow> string \<Rightarrow> string \<Rightarrow> string \<Rightarrow> string \<Rightarrow> string \<Rightarrow> string
     \<Rightarrow> db \<times> (error + response)" where
  "admin_create_user d bcrypt_hash newId tid em password nm acct =
     (case tenant_findUnique d tid of
        None \<Rightarrow> (d, Inl (AppError EmpresaNaoEncontrada 404))
      | Some t \<Rightarrow>
          (let currentCount = register_currentCount d tid acct;
               maxAllowed = register_maxAllowed t acct
           in if maxAllowed \<noteq> - 1 \<and> currentCount \<ge> maxAllowed
              then (d, Inl (AppError (LimiteDeContasAdmin acct maxAllowed) 403))
              else
                (case find (\<lambda>u. user_email u = em) (users d) of
                   Some existingUser \<Rightarrow> (d, Inl (AppError EmailEmUso 409))
                 | None \<Rightarrow>
                     (let u = \<lparr>user_id = newId, user_email = em, user_name = Some nm,
                               passwordHash = bcrypt_hash password, user_accountType = acct,
                               user_isActive = True, user_tenantId = tid, lastLogin = None\<rparr>
                      in (d\<lparr>users := users d @ [u]\<rparr>,
                          Inr \<lparr>status = 201,
                               body = RegisterBody
                                        \<lparr>info_id = user_id u, info_email = user_email u,
                                         info_name = user_name u,
                                         info_accountType = user_accountType u,
                                         info_tenantId = None, info_tenant = None\<rparr>\<rparr>)))))"

text \<open>
  PATCH /api/admin/tenants/:id with only \<open>isActive\<close> in the body: the
  \<open>prisma.tenant.update\<close> of that one column.
\<close>

definition tenant_update_isActive :: "db \<Rightarrow> string \<Rightarrow> bool \<Rightarrow> db" where
  "tenant_update_isActive d i b =
     d\<lparr>tenants := map (\<lambda>t. if tenant_id t = i then t\<lparr>tenant_isActive := b\<rparr> else t) (tenants d)\<rparr>"

section \<open>The request pipeline\<close>

text \<open>
  The application mounts \<open>authenticateToken\<close> and then \<open>tenantMiddleware\<close> on
  /api/tenant and /api/upload; each tenant route adds \<open>checkAccountAccess\<close> for its
  module, and the upload router runs \<open>authenticateToken\<close> once more. An outcome
  other than \<open>Next\<close> ends the request: a forwarded error reaches \<open>errorHandler\<close>.
\<close>

definition api_tenant_guards ::
  "env \<Rightarrow> db \<Rightarrow> int \<Rightarrow> token option \<Rightarrow> string \<Rightarrow> (req_user \<times> tenant) outcome" where
  "api_tenant_guards e d now token requiredModule =
     (case authenticateToken e d now token of
        NextError err \<Rightarrow> NextError err
      | Respond r \<Rightarrow> Respond r
      | Next u \<Rightarrow>
          (case tenantMiddleware d now (Some u) of
             NextError err \<Rightarrow> NextError err
           | Respond r \<Rightarrow> Respond r
           | Next t \<Rightarrow>
               (case checkAccountAccess requiredModule (Some u) of
                  NextError err \<Rightarrow> NextError err
                | Respond r \<Rightarrow> Respond r
                | Next x \<Rightarrow> Next (u, t))))"

definition api_upload_guards ::
  "env \<Rightarrow> db \<Rightarrow> int \<Rightarrow> token option \<Rightarrow> req_user outcome" where
  "api_upload_guards e d now token =
     (case authenticateToken e d now token of
        NextError err \<Rightarrow> NextError err
      | Respond r \<Rightarrow> Respond r
      | Next u \<Rightarrow>
          (case tenantMiddleware d now (Some u) of
             NextError err \<Rightarrow> NextError err
           | Respond r \<Rightarrow> Respond r
           | Next t \<Rightarrow> authenticateToken e d now token))"

definition denial :: "'a outcome \<Rightarrow> response option" where
  "denial r =
     (case r of
        Next x \<Rightarrow> None
      | NextError err \<Rightarrow> Some (errorHandler err)
      | Respond resp \<Rightarrow> Some resp)"



definition api_upload_single ::
  "env \<Rightarrow> db \<Rightarrow> int \<Rightarrow> token option \<Rightarrow> string \<Rightarrow> multer_file option \<Rightarrow> db \<times> response" where
  "api_upload_single e d now token newId reqFile =
     (case api_upload_guards e d now token of
        NextError err \<Rightarrow> (d, errorHandler err)
      | Respond r \<Rightarrow> (d, r)
      | Next u \<Rightarrow>
          (case upload_single d now newId u reqFile of
             (d', r) \<Rightarrow> (d', asyncHandler r)))"

section \<open>Example data\<close>

text \<open>
  A small store used to evaluate the definitions: two tenants, the first with room for
  two SIMPLE accounts and already holding two, each tenant with one stored file.
\<close>

definition env0 :: env where
  "env0 = \<lparr>JWT_SECRET = None, JWT_REFRESH_SECRET = None\<rparr>"

definition tenant1 :: tenant where
  "tenant1 = \<lparr>tenant_id = ''t1'', companyName = ''Acme'', planType = ''SIMPLE'',
              tenant_isActive = True, expiresAt = None, maxSimpleAccounts = 2,
              maxCompositeAccounts = 1, maxManagerialAccounts = - 1\<rparr>"

definition tenant2 :: tenant where
  "tenant2 = \<lparr>tenant_id = ''t2'', companyName = ''Beta'', planType = ''MANAGERIAL'',
              tenant_isActive = True, expiresAt = None, maxSimpleAccounts = 1,
              maxCompositeAccounts = 1, maxManagerialAccounts = 1\<rparr>"

definition alice :: user where
  "alice = \<lparr>user_id = ''u1'', user_email = ''alice@acme.com'', user_name = Some ''Alice'',
            passwordHash = ''hsecret1'', user_accountType = ''SIMPLE'', user_isActive = True,
            user_tenantId = ''t1'', lastLogin = None\<rparr>"

definition bob :: user where
  "bob = \<lparr>user_id = ''u2'', user_email = ''bob@acme.com'', user_name = None,
          passwordHash = ''hsecret2'', user_accountType = ''SIMPLE'', user_isActive = True,
          user_tenantId = ''t1'', lastLogin = None\<rparr>"

definition carol :: user where
  "carol = \<lparr>user_id = ''u3'', user_email = ''carol@beta.com'', user_name = Some ''Carol'',
            passwordHash = ''hsecret3'', user_accountType = ''MANAGERIAL'', user_isActive = True,
            user_tenantId = ''t2'', lastLogin = None\<rparr>"

definition file1 :: file_row where
  "file1 = \<lparr>file_id = ''f1'', filename = ''file-1.pdf'', originalName = ''a.pdf'',
            mimetype = ''application/pdf'', file_size = 10, file_path = ''/up/t1/file-1.pdf'',
            file_tenantId = ''t1'', uploadedBy = ''u1'', createdAt = 100\<rparr>"

definition file2 :: file_row where
  "file2 = \<lparr>file_id = ''f2'', filename = ''file-2.png'', originalName = ''b.png'',
            mimetype = ''image/png'', file_size = 20, file_path = ''/up/t2/file-2.png'',
            file_tenantId = ''t2'', uploadedBy = ''u3'', createdAt = 200\<rparr>"

definition db0 :: db where
  "db0 = \<lparr>tenants = [tenant1, tenant2], users = [alice, bob, carol],
          files = [file1, file2], client_rows = [], project_rows = [], auditLogs = [],
          auditFailure = None\<rparr>"

definition fs0 :: "string \<Rightarrow> string option" where
  "fs0 p = (if p = ''/up/t1/file-1.pdf'' then Some ''PDF-A''
            else if p = ''/up/t2/file-2.png'' then Some ''PNG-B'' else None)"

definition alice_req :: req_user where
  "alice_req = \<lparr>userId = ''u1'', tenantId = ''t1'', accountType = ''SIMPLE''\<rparr>"

definition hash0 :: "string \<Rightarrow> string" where
  "hash0 p = ''#'' @ p"

text \<open>
  Tokens as the login issues them at time 0 for the first user, and variants of the
  store: the first tenant expired or deactivated, the first user deactivated or moved to
  another tier, the audit table rejecting writes. \<open>env_same\<close> configures one secret
  for both kinds of token.
\<close>

definition cmp0 :: "string \<Rightarrow> string \<Rightarrow> bool" where
  "cmp0 p h = (h = ''h'' @ p)"

definition alice_token :: token where
  "alice_token = jwt_sign (access_claims alice) (jwt_secret env0) h24 0"

definition alice_refresh :: token where
  "alice_refresh = jwt_sign (refresh_claims alice) (jwt_refresh_secret env0) d30 0"

definition env_same :: env where
  "env_same = \<lparr>JWT_SECRET = Some ''k'', JWT_REFRESH_SECRET = Some ''k''\<rparr>"

definition refresh_same :: token where
  "refresh_same = jwt_sign (refresh_claims alice) (jwt_refresh_secret env_same) d30 0"

definition db_expired :: db where
  "db_expired = db0\<lparr>tenants := [tenant1\<lparr>expiresAt := Some 500\<rparr>, tenant2]\<rparr>"

definition db_inactive :: db where
  "db_inactive = db0\<lparr>tenants := [tenant1\<lparr>tenant_isActive := False\<rparr>, tenant2]\<rparr>"

definition db_alice_off :: db where
  "db_alice_off = db0\<lparr>users := [alice\<lparr>user_isActive := False\<rparr>, bob, carol]\<rparr>"

definition db_promoted :: db where
  "db_promoted = db0\<lparr>users := [alice\<lparr>user_accountType := ''MANAGERIAL''\<rparr>, bob, carol]\<rparr>"

definition db_audit_down :: db where
  "db_audit_down = db0\<lparr>auditFailure := Some OtherError\<rparr>"

definition upload0 :: multer_file where
  "upload0 = \<lparr>mf_filename = ''file-3.txt'', mf_originalname = ''c.txt'',
              mf_mimetype = ''text/plain'', mf_size = 5, mf_path = ''/up/t1/file-3.txt''\<rparr>"

definition ghost_req :: req_user where
  "ghost_req = \<lparr>userId = ''u1'', tenantId = ''t9'', accountType = ''SIMPLE''\<rparr>"

text \<open>The first user's login at time 0: what the answer tells about her, and the store after it.\<close>

definition alice_info :: user_info where
  "alice_info =
     \<lparr>info_id = ''u1'', info_email = ''alice@acme.com'', info_name = Some ''Alice'',
      info_accountType = ''SIMPLE'', info_tenantId = Some ''t1'', info_tenant = Some tenant1\<rparr>"

definition db_logged :: db where
  "db_logged = fst (login env0 db0 0 cmp0 ''10.0.0.1'' ''alice@acme.com'' ''secret1'')"

text \<open>
  A store for the quota checks, with ids, emails and passwords as the request
  schemas demand them. The first tenant has room for two SIMPLE accounts and one
  COMPOSITE account and no limit on MANAGERIAL accounts; it holds two SIMPLE users and
  one MANAGERIAL user, fifty clients, twenty-four projects and files that add up to
  the storage limit of a SIMPLE account. The second tenant holds one SIMPLE user,
  three clients, one project and one small file.
\<close>

definition tid_a :: string where
  "tid_a = ''11111111-1111-4111-8111-111111111111''"

definition tid_b :: string where
  "tid_b = ''22222222-2222-4222-8222-222222222222''"

definition tenant_a :: tenant where
  "tenant_a = \<lparr>tenant_id = tid_a, companyName = ''Acme Law'', planType = ''SIMPLE'',
               tenant_isActive = True, expiresAt = None, maxSimpleAccounts = 2,
               maxCompositeAccounts = 1, maxManagerialAccounts = - 1\<rparr>"

definition tenant_b :: tenant where
  "tenant_b = \<lparr>tenant_id = tid_b, companyName = ''Beta Law'', planType = ''COMPOSITE'',
               tenant_isActive = True, expiresAt = None, maxSimpleAccounts = 2,
               maxCompositeAccounts = 1, maxManagerialAccounts = 1\<rparr>"

definition quota_user :: "string \<Rightarrow> string \<Rightarrow> string \<Rightarrow> string \<Rightarrow> user" where
  "quota_user i em acct tid =
     \<lparr>user_id = i, user_email = em, user_name = None, passwordHash = ''hsecret1'',
      user_accountType = acct, user_isActive = True, user_tenantId = tid, lastLogin = None\<rparr>"

definition quota_file :: "string \<Rightarrow> int \<Rightarrow> string \<Rightarrow> file_row" where
  "quota_file i n tid =
     \<lparr>file_id = i, filename = i, originalName = i, mimetype = ''text/plain'', file_size = n,
      file_path = ''/up/'' @ i, file_tenantId = tid, uploadedBy = ''ua'', createdAt = 0\<rparr>"

definition db_quota :: db where
  "db_quota =
     \<lparr>tenants = [tenant_a, tenant_b],
      users = [quota_user ''ua'' ''ann@acme.com'' ''SIMPLE'' tid_a,
               quota_user ''ub'' ''ben@acme.com'' ''SIMPLE'' tid_a,
               quota_user ''uc'' ''cy@beta.com'' ''SIMPLE'' tid_b,
               quota_user ''ud'' ''dee@acme.com'' ''MANAGERIAL'' tid_a],
      files = [quota_file ''fa'' 104857000 tid_a, quota_file ''fb'' 1 tid_b,
               quota_file ''fc'' 600 tid_a],
      client_rows =
        map (\<lambda>n. \<lparr>client_id = ''ca'' @ replicate n (CHR ''x''), client_tenantId = tid_a\<rparr>)
            [0..<50]
        @ map (\<lambda>n. \<lparr>client_id = ''cb'' @ replicate n (CHR ''x''), client_tenantId = tid_b\<rparr>)
            [0..<3],
      project_rows =
        map (\<lambda>n. \<lparr>project_id = ''pa'' @ replicate n (CHR ''x''), project_tenantId = tid_a\<rparr>)
            [0..<24]
        @ [\<lparr>project_id = ''pb'', project_tenantId = tid_b\<rparr>],
      auditLogs = [], auditFailure = None\<rparr>"

definition ann_req :: req_user where
  "ann_req = \<lparr>userId = ''ua'', tenantId = tid_a, accountType = ''SIMPLE''\<rparr>"

definition cy_req :: req_user where
  "cy_req = \<lparr>userId = ''uc'', tenantId = tid_b, accountType = ''SIMPLE''\<rparr>"

definition dee_req :: req_user where
  "dee_req = \<lparr>userId = ''ud'', tenantId = tid_a, accountType = ''MANAGERIAL''\<rparr>"

text \<open>
  A token that carries a tier name outside the table, for the first user of the small
  store, signed with the default secret written in the source.
\<close>

definition premium_token :: token where
  "premium_token =
     Signed \<lparr>claim_userId = ''u1'', claim_tenantId = ''t1'',
             claim_accountType = Some ''PREMIUM'', claim_type = None, iat = 0, exp = 86400\<rparr>
       ''your_jwt_secret_key''"

section \<open>Evaluation rules\<close>

lemmas fixture_defs = env0_def tenant1_def tenant2_def alice_def bob_def carol_def file1_def
  file2_def db0_def fs0_def alice_req_def hash0_def cmp0_def
  alice_token_def alice_refresh_def env_same_def refresh_same_def db_expired_def
  db_inactive_def db_alice_off_def db_promoted_def db_audit_down_def upload0_def ghost_req_def
  alice_info_def

lemmas token_defs = jwt_secret_def jwt_refresh_secret_def jwt_sign_def jwt_verify_def h24_def
  d30_def access_claims_def refresh_claims_def

lemmas query_defs = user_findUnique_def tenant_findUnique_def user_tenant_def expired_def

lemmas auth_defs = authenticateToken_def authenticateToken_try_def
  instanceof_JsonWebTokenError_def instanceof_TokenExpiredError_def tenantMiddleware_def

section \<open>Properties of the capability gate\<close>

lemma suggest_loop_filter:
  "suggest_loop tbl m acc = acc @ map fst (filter (\<lambda>(t, ms). m \<in> set ms) tbl)"
  by (induction tbl m acc rule: suggest_loop.induct) auto

lemma ACCOUNT_MODULES_distinct: "distinct (map fst ACCOUNT_MODULES)"
  by (simp add: ACCOUNT_MODULES_def)

lemma getSuggestedAccounts_filter:
  "getSuggestedAccounts m = map fst (filter (\<lambda>(t, ms). m \<in> set ms) ACCOUNT_MODULES)"
  by (simp add: getSuggestedAccounts_def suggest_loop_filter)

lemma suggest_loop_set:
  "set (suggest_loop tbl m acc) = set acc \<union> {t. \<exists>ms. (t, ms) \<in> set tbl \<and> m \<in> set ms}"
  by (induction tbl m acc rule: suggest_loop.induct) auto

lemma getSuggestedAccounts_set:
  "set (getSuggestedAccounts m) = {t. \<exists>ms. map_of ACCOUNT_MODULES t = Some ms \<and> m \<in> set ms}"
  using ACCOUNT_MODULES_distinct
  by (auto simp: getSuggestedAccounts_def suggest_loop_set)

lemma map_of_ACCOUNT_MODULES_None:
  "a \<notin> {''SIMPLE'', ''COMPOSITE'', ''MANAGERIAL''} \<Longrightarrow> map_of ACCOUNT_MODULES a = None"
  by (simp add: ACCOUNT_MODULES_def)

text \<open>
  Claim C6. Whenever the capability gate denies a request, that is, the module list of
  the requesting tier does not contain the requested module, the answer is 403 and
  carries the current tier, the requested module and \<open>suggestedAccounts\<close>, which
  is exactly the tiers whose module lists contain the module, found by a scan of the
  static table in table order; every 403 of the gate has this form. A SIMPLE account
  asking for \<open>cash_flow\<close> is denied with \<open>suggestedAccounts\<close> COMPOSITE, MANAGERIAL.
\<close>

theorem capability_denial_enriched:
  "(map_of ACCOUNT_MODULES (accountType u) = Some ms \<and> m \<notin> set ms \<longrightarrow>
      checkAccountAccess m (Some u) =
        Respond \<lparr>status = 403,
                 body = AccountAccessDenied (accountType u) m ms (getSuggestedAccounts m)\<rparr>)
   \<and> (checkAccountAccess m usr = Respond r \<and> status r = 403 \<longrightarrow>
        (\<exists>v vs. usr = Some v \<and> map_of ACCOUNT_MODULES (accountType v) = Some vs \<and> m \<notin> set vs
           \<and> body r = AccountAccessDenied (accountType v) m vs (getSuggestedAccounts m)))
   \<and> set (getSuggestedAccounts m) =
        {t. \<exists>ts. map_of ACCOUNT_MODULES t = Some ts \<and> m \<in> set ts}
   \<and> getSuggestedAccounts m = map fst (filter (\<lambda>(t, ts). m \<in> set ts) ACCOUNT_MODULES)
   \<and> getSuggestedAccounts ''cash_flow'' = [''COMPOSITE'', ''MANAGERIAL'']
   \<and> checkAccountAccess ''cash_flow''
        (Some \<lparr>userId = uid, tenantId = tid, accountType = ''SIMPLE''\<rparr>) =
        Respond \<lparr>status = 403,
                 body = AccountAccessDenied ''SIMPLE'' ''cash_flow''
                          [''crm'', ''clients'', ''projects'', ''tasks'', ''billing'',
                           ''basic_settings'']
                          [''COMPOSITE'', ''MANAGERIAL'']\<rparr>"
proof (intro conjI impI)
  assume "map_of ACCOUNT_MODULES (accountType u) = Some ms \<and> m \<notin> set ms"
  then show "checkAccountAccess m (Some u) =
        Respond \<lparr>status = 403,
                 body = AccountAccessDenied (accountType u) m ms (getSuggestedAccounts m)\<rparr>"
    by (simp add: checkAccountAccess_def checkAccountAccess_try_def)
next
  assume "checkAccountAccess m usr = Respond r \<and> status r = 403"
  then show "\<exists>v vs. usr = Some v \<and> map_of ACCOUNT_MODULES (accountType v) = Some vs \<and> m \<notin> set vs
           \<and> body r = AccountAccessDenied (accountType v) m vs (getSuggestedAccounts m)"
    by (auto simp: checkAccountAccess_def checkAccountAccess_try_def
             split: option.splits if_splits)
next
  show "set (getSuggestedAccounts m) =
        {t. \<exists>ts. map_of ACCOUNT_MODULES t = Some ts \<and> m \<in> set ts}"
    by (rule getSuggestedAccounts_set)
next
  show "getSuggestedAccounts m = map fst (filter (\<lambda>(t, ts). m \<in> set ts) ACCOUNT_MODULES)"
    by (rule getSuggestedAccounts_filter)
next
  show c: "getSuggestedAccounts ''cash_flow'' = [''COMPOSITE'', ''MANAGERIAL'']"
    by (simp add: getSuggestedAccounts_def ACCOUNT_MODULES_def)
  show "checkAccountAccess ''cash_flow''
        (Some \<lparr>userId = uid, tenantId = tid, accountType = ''SIMPLE''\<rparr>) =
        Respond \<lparr>status = 403,
                 body = AccountAccessDenied ''SIMPLE'' ''cash_flow''
                          [''crm'', ''clients'', ''projects'', ''tasks'', ''billing'',
                           ''basic_settings'']
                          [''COMPOSITE'', ''MANAGERIAL'']\<rparr>"
    by (simp add: checkAccountAccess_def checkAccountAccess_try_def getSuggestedAccounts_def
          ACCOUNT_MODULES_def)
qed

theorem capability_denial_enriched_witness:
  "map_of ACCOUNT_MODULES ''COMPOSITE'' =
     Some [''crm'', ''clients'', ''projects'', ''tasks'', ''billing'', ''cash_flow'',
           ''transactions'', ''dashboard'', ''basic_settings'']
   \<and> ''audit_logs'' \<notin> set [''crm'', ''clients'', ''projects'', ''tasks'', ''billing'',
           ''cash_flow'', ''transactions'', ''dashboard'', ''basic_settings'']
   \<and> checkAccountAccess ''audit_logs''
        (Some \<lparr>userId = ''u1'', tenantId = ''t1'', accountType = ''COMPOSITE''\<rparr>) =
        Respond \<lparr>status = 403,
                 body = AccountAccessDenied ''COMPOSITE'' ''audit_logs''
                          [''crm'', ''clients'', ''projects'', ''tasks'', ''billing'',
                           ''cash_flow'', ''transactions'', ''dashboard'', ''basic_settings'']
                          [''MANAGERIAL'']\<rparr>"
proof -
  have a: "map_of ACCOUNT_MODULES ''COMPOSITE'' =
     Some [''crm'', ''clients'', ''projects'', ''tasks'', ''billing'', ''cash_flow'',
           ''transactions'', ''dashboard'', ''basic_settings'']"
    by (simp add: ACCOUNT_MODULES_def)
  have b: "''audit_logs'' \<notin> set [''crm'', ''clients'', ''projects'', ''tasks'', ''billing'',
           ''cash_flow'', ''transactions'', ''dashboard'', ''basic_settings'']"
    by simp
  have g: "getSuggestedAccounts ''audit_logs'' = [''MANAGERIAL'']"
    by (simp add: getSuggestedAccounts_def ACCOUNT_MODULES_def)
  show ?thesis
    using capability_denial_enriched
      [of "\<lparr>userId = ''u1'', tenantId = ''t1'', accountType = ''COMPOSITE''\<rparr>"
          "[''crm'', ''clients'', ''projects'', ''tasks'', ''billing'', ''cash_flow'',
            ''transactions'', ''dashboard'', ''basic_settings'']" "''audit_logs''"]
      a b g
    by simp
qed

text \<open>
  Claim C10, as stated, fails: a request whose token carries the tier name PREMIUM in its
  \<open>accountType\<close> claim passes the gate of a module that the principal's stored tier
  has, and gets the ordinary capability denial for a module it has not; the claim of the
  token is not what the gate reads.
\<close>

theorem unknown_tier_claim_counterexample:
  "jwt_verify premium_token (jwt_secret env0) 1000 =
     Inr \<lparr>claim_userId = ''u1'', claim_tenantId = ''t1'', claim_accountType = Some ''PREMIUM'',
          claim_type = None, iat = 0, exp = 86400\<rparr>
   \<and> api_tenant_guards env0 db0 1000 (Some premium_token) ''crm'' = Next (alice_req, tenant1)
   \<and> api_tenant_guards env0 db0 1000 (Some premium_token) ''cash_flow'' =
       Respond \<lparr>status = 403,
                body = AccountAccessDenied ''SIMPLE'' ''cash_flow''
                         [''crm'', ''clients'', ''projects'', ''tasks'', ''billing'',
                          ''basic_settings'']
                         [''COMPOSITE'', ''MANAGERIAL'']\<rparr>"
  by (simp add: api_tenant_guards_def checkAccountAccess_def checkAccountAccess_try_def
        ACCOUNT_MODULES_def getSuggestedAccounts_def premium_token_def
        fixture_defs token_defs query_defs auth_defs)

text \<open>
  Claim C10, amended. Whenever the \<open>accountType\<close> of \<open>req.user\<close> that the
  capability gate reads is a string other than SIMPLE, COMPOSITE and MANAGERIAL, the gate
  neither calls the next handler nor answers with a capability denial: the lookup of the
  module list fails, the error is caught, and the answer is 500 with code
  INTERNAL_ERROR. The \<open>accountType\<close> claim of the token does not reach the gate: the
  guard chain of a tenant route answers the same whatever that claim is.
\<close>

theorem unknown_tier_internal_error:
  "(accountType u \<notin> {''SIMPLE'', ''COMPOSITE'', ''MANAGERIAL''} \<longrightarrow>
      checkAccountAccess m (Some u) = Respond \<lparr>status = 500, body = InternalError\<rparr>)
   \<and> api_tenant_guards e d now (Some (Signed (c\<lparr>claim_accountType := a\<rparr>) k)) m =
       api_tenant_guards e d now (Some (Signed c k)) m"
  by (simp add: api_tenant_guards_def authenticateToken_def authenticateToken_try_def
        jwt_verify_def checkAccountAccess_def checkAccountAccess_try_def
        map_of_ACCOUNT_MODULES_None)

theorem unknown_tier_internal_error_witness:
  "''PREMIUM'' \<notin> {''SIMPLE'', ''COMPOSITE'', ''MANAGERIAL''}
   \<and> checkAccountAccess ''crm''
        (Some \<lparr>userId = ''u1'', tenantId = ''t1'', accountType = ''PREMIUM''\<rparr>) =
       Respond \<lparr>status = 500, body = InternalError\<rparr>
   \<and> api_tenant_guards env0 db0 1000 (Some premium_token) ''crm'' =
       api_tenant_guards env0 db0 1000 (Some alice_token) ''crm''"
proof -
  let ?c = "\<lparr>claim_userId = ''u1'', claim_tenantId = ''t1'',
             claim_accountType = Some ''SIMPLE'', claim_type = None, iat = 0, exp = 86400\<rparr>"
  have n: "accountType \<lparr>userId = ''u1'', tenantId = ''t1'', accountType = ''PREMIUM''\<rparr>
             \<notin> {''SIMPLE'', ''COMPOSITE'', ''MANAGERIAL''}"
    by simp
  have t: "alice_token = Signed ?c ''your_jwt_secret_key''"
    by (simp add: fixture_defs token_defs)
  have p: "premium_token = Signed (?c\<lparr>claim_accountType := Some ''PREMIUM''\<rparr>) ''your_jwt_secret_key''"
    by (simp add: premium_token_def)
  from unknown_tier_internal_error
    [where u = "\<lparr>userId = ''u1'', tenantId = ''t1'', accountType = ''PREMIUM''\<rparr>"
       and m = "''crm''" and e = env0 and d = db0 and now = 1000 and c = ?c
       and a = "Some ''PREMIUM''" and k = "''your_jwt_secret_key''"] n
  show ?thesis unfolding t p by simp
qed

section \<open>The quota checks\<close>

lemma foldl_plus_sum_list:
  "foldl (\<lambda>total f. total + g f) a xs = a + sum_list (map g xs)"
  by (induction xs arbitrary: a) (simp_all add: add.assoc)

lemma checkAccountLimits_own:
  assumes "js_index ACCOUNT_LIMITS (accountType u) = Own lim"
    and "tenantId u \<noteq> []" and "accountType u \<noteq> []"
  shows "checkAccountLimits rt d (Some u) =
     (if maxAllowed_of lim rt \<noteq> - 1 \<and> maxAllowed_of lim rt \<le> currentCount_of d rt (tenantId u)
      then Respond \<lparr>status = 403,
                    body = AccountLimitExceeded (accountType u) rt
                             (currentCount_of d rt (tenantId u)) (maxAllowed_of lim rt)
                             (getSuggestedAccountsForLimit rt (accountType u))\<rparr>
      else Next ())"
  using assms by (simp add: checkAccountLimits_def checkAccountLimits_try_def Let_def)

text \<open>
  A tier name inherited from \<open>Object.prototype\<close> has no limit at all: the check
  calls \<open>next()\<close>.
\<close>

lemma checkAccountLimits_inherited:
  "checkAccountLimits rt d (Some \<lparr>userId = i, tenantId = ''t1'', accountType = ''constructor''\<rparr>)
     = Next ()"
  by (simp add: checkAccountLimits_def checkAccountLimits_try_def js_index_def
        ACCOUNT_LIMITS_def object_prototype_names_def)

lemma checkAccountLimits_three_tiers:
  assumes "tenantId u \<noteq> []"
    and "(accountType u, rt, mx, sg) \<in>
           {(''SIMPLE'', Clients, 50, [''COMPOSITE'', ''MANAGERIAL'']),
            (''SIMPLE'', Projects, 25, [''COMPOSITE'', ''MANAGERIAL'']),
            (''SIMPLE'', Storage, 104857600, [''COMPOSITE'', ''MANAGERIAL'']),
            (''COMPOSITE'', Clients, 200, [''MANAGERIAL'']),
            (''COMPOSITE'', Projects, 100, [''MANAGERIAL'']),
            (''COMPOSITE'', Storage, 524288000, [''MANAGERIAL'']),
            (''MANAGERIAL'', Clients, - 1, []),
            (''MANAGERIAL'', Projects, - 1, []),
            (''MANAGERIAL'', Storage, 5368709120, [])}"
    and "cur =
           (case rt of
              Clients \<Rightarrow> int (length (filter (\<lambda>c. client_tenantId c = tenantId u) (client_rows d)))
            | Projects \<Rightarrow> int (length (filter (\<lambda>p. project_tenantId p = tenantId u) (project_rows d)))
            | Storage \<Rightarrow> sum_list (map file_size (filter (\<lambda>f. file_tenantId f = tenantId u) (files d))))"
  shows "checkAccountLimits rt d (Some u) =
     (if mx \<noteq> - 1 \<and> mx \<le> cur
      then Respond \<lparr>status = 403, body = AccountLimitExceeded (accountType u) rt cur mx sg\<rparr>
      else Next ())"
proof -
  from assms(2) obtain lim where
    l: "js_index ACCOUNT_LIMITS (accountType u) = Own lim"
    and m: "maxAllowed_of lim rt = mx"
    and s: "getSuggestedAccountsForLimit rt (accountType u) = sg"
    by (auto simp: js_index_def ACCOUNT_LIMITS_def maxAllowed_of_def
          getSuggestedAccountsForLimit_def accountLevels_def)
  from assms(2) have ne: "accountType u \<noteq> []" by auto
  have c: "currentCount_of d rt (tenantId u) = cur"
    unfolding assms(3) by (cases rt) (simp_all add: currentCount_of_def foldl_plus_sum_list)
  show ?thesis
    using checkAccountLimits_own [OF l assms(1) ne, of rt d] by (simp add: m s c)
qed

lemma register_three_tiers:
  assumes "find (\<lambda>w. user_email w = em) (users d) = None"
    and "find (\<lambda>x. tenant_id x = tid) (tenants d) = Some t" and "tenant_isActive t"
    and "(acct, rmx) \<in> {(''SIMPLE'', maxSimpleAccounts t), (''COMPOSITE'', maxCompositeAccounts t),
                         (''MANAGERIAL'', maxManagerialAccounts t)}"
    and "rcur = int (length (filter (\<lambda>w. user_tenantId w = tid \<and> user_accountType w = acct) (users d)))"
  shows "rmx \<noteq> - 1 \<and> rmx \<le> rcur \<longrightarrow>
           register d bh newId em pw nm tid acct = (d, Inl (AppError (LimiteDeContas acct rmx) 403))"
    and "rmx = - 1 \<or> rcur < rmx \<longrightarrow>
           map_sum id status (snd (register d bh newId em pw nm tid acct)) = Inr 201"
  using assms
  by (auto simp: register_def Let_def tenant_findUnique_def register_maxAllowed_def
        register_currentCount_def)

lemma admin_three_tiers:
  assumes "find (\<lambda>w. user_email w = em) (users d) = None"
    and "find (\<lambda>x. tenant_id x = tid) (tenants d) = Some t"
    and "(acct, rmx) \<in> {(''SIMPLE'', maxSimpleAccounts t), (''COMPOSITE'', maxCompositeAccounts t),
                         (''MANAGERIAL'', maxManagerialAccounts t)}"
    and "rcur = int (length (filter (\<lambda>w. user_tenantId w = tid \<and> user_accountType w = acct) (users d)))"
  shows "rmx \<noteq> - 1 \<and> rmx \<le> rcur \<longrightarrow>
           admin_create_user d bh newId tid em pw nm acct =
             (d, Inl (AppError (LimiteDeContasAdmin acct rmx) 403))"
    and "rmx = - 1 \<or> rcur < rmx \<longrightarrow>
           map_sum id status (snd (admin_create_user d bh newId tid em pw nm acct)) = Inr 201"
  using assms
  by (auto simp: admin_create_user_def Let_def tenant_findUnique_def register_maxAllowed_def
        register_currentCount_def)


text \<open>
  Claim C5. Every quota check allows when the applicable limit is -1, whatever the
  current count; with any other limit it denies with 403 when the current count is
  greater than or equal to the limit and allows when the count is strictly below it.
  For the resource-creation middleware the limit is the entry of the caller's tier in
  the table below and the count is the number of clients or projects, or the sum of the
  file sizes, of the caller's tenant. For the registration and the administrative user
  creation the limit is the tenant's maximum for the requested tier and the count is
  the number of the tenant's users of that tier.
\<close>

theorem quota_check:
  "(tenantId u \<noteq> []
      \<and> (accountType u, rt, mx, sg) \<in>
           {(''SIMPLE'', Clients, 50, [''COMPOSITE'', ''MANAGERIAL'']),
            (''SIMPLE'', Projects, 25, [''COMPOSITE'', ''MANAGERIAL'']),
            (''SIMPLE'', Storage, 104857600, [''COMPOSITE'', ''MANAGERIAL'']),
            (''COMPOSITE'', Clients, 200, [''MANAGERIAL'']),
            (''COMPOSITE'', Projects, 100, [''MANAGERIAL'']),
            (''COMPOSITE'', Storage, 524288000, [''MANAGERIAL'']),
            (''MANAGERIAL'', Clients, - 1, []),
            (''MANAGERIAL'', Projects, - 1, []),
            (''MANAGERIAL'', Storage, 5368709120, [])}
      \<and> cur =
           (case rt of
              Clients \<Rightarrow> int (length (filter (\<lambda>c. client_tenantId c = tenantId u) (client_rows d)))
            | Projects \<Rightarrow> int (length (filter (\<lambda>p. project_tenantId p = tenantId u) (project_rows d)))
            | Storage \<Rightarrow> sum_list (map file_size (filter (\<lambda>f. file_tenantId f = tenantId u) (files d)))) \<longrightarrow>
      (mx = - 1 \<longrightarrow> checkAccountLimits rt d (Some u) = Next ())
    \<and> (mx \<noteq> - 1 \<and> mx \<le> cur \<longrightarrow>
         checkAccountLimits rt d (Some u) =
           Respond \<lparr>status = 403, body = AccountLimitExceeded (accountType u) rt cur mx sg\<rparr>)
    \<and> (mx \<noteq> - 1 \<and> cur < mx \<longrightarrow> checkAccountLimits rt d (Some u) = Next ()))
   \<and> (find (\<lambda>w. user_email w = em) (users d) = None
      \<and> find (\<lambda>x. tenant_id x = tid) (tenants d) = Some t \<and> tenant_isActive t
      \<and> (acct, rmx) \<in>
           {(''SIMPLE'', maxSimpleAccounts t), (''COMPOSITE'', maxCompositeAccounts t),
             (''MANAGERIAL'', maxManagerialAccounts t)}
      \<and> rcur = int (length (filter (\<lambda>w. user_tenantId w = tid \<and> user_accountType w = acct) (users d))) \<longrightarrow>
      (rmx = - 1 \<longrightarrow>
         map_sum id status (snd (register d bh newId em pw nm tid acct)) = Inr 201)
    \<and> (rmx \<noteq> - 1 \<and> rmx \<le> rcur \<longrightarrow>
         register d bh newId em pw nm tid acct =
           (d, Inl (AppError (LimiteDeContas acct rmx) 403)))
    \<and> (rmx \<noteq> - 1 \<and> rcur < rmx \<longrightarrow>
         map_sum id status (snd (register d bh newId em pw nm tid acct)) = Inr 201))
   \<and> (find (\<lambda>w. user_email w = em) (users d) = None
      \<and> find (\<lambda>x. tenant_id x = tid) (tenants d) = Some t
      \<and> (acct, rmx) \<in>
           {(''SIMPLE'', maxSimpleAccounts t), (''COMPOSITE'', maxCompositeAccounts t),
             (''MANAGERIAL'', maxManagerialAccounts t)}
      \<and> rcur = int (length (filter (\<lambda>w. user_tenantId w = tid \<and> user_accountType w = acct) (users d))) \<longrightarrow>
      (rmx = - 1 \<longrightarrow>
         map_sum id status (snd (admin_create_user d bh newId tid em pw nm acct)) = Inr 201)
    \<and> (rmx \<noteq> - 1 \<and> rmx \<le> rcur \<longrightarrow>
         admin_create_user d bh newId tid em pw nm acct =
           (d, Inl (AppError (LimiteDeContasAdmin acct rmx) 403)))
    \<and> (rmx \<noteq> - 1 \<and> rcur < rmx \<longrightarrow>
         map_sum id status (snd (admin_create_user d bh newId tid em pw nm acct)) = Inr 201))"
proof (intro conjI impI)
  assume h: "tenantId u \<noteq> []
      \<and> (accountType u, rt, mx, sg) \<in>
           {(''SIMPLE'', Clients, 50, [''COMPOSITE'', ''MANAGERIAL'']),
            (''SIMPLE'', Projects, 25, [''COMPOSITE'', ''MANAGERIAL'']),
            (''SIMPLE'', Storage, 104857600, [''COMPOSITE'', ''MANAGERIAL'']),
            (''COMPOSITE'', Clients, 200, [''MANAGERIAL'']),
            (''COMPOSITE'', Projects, 100, [''MANAGERIAL'']),
            (''COMPOSITE'', Storage, 524288000, [''MANAGERIAL'']),
            (''MANAGERIAL'', Clients, - 1, []),
            (''MANAGERIAL'', Projects, - 1, []),
            (''MANAGERIAL'', Storage, 5368709120, [])}
      \<and> cur =
           (case rt of
              Clients \<Rightarrow> int (length (filter (\<lambda>c. client_tenantId c = tenantId u) (client_rows d)))
            | Projects \<Rightarrow> int (length (filter (\<lambda>p. project_tenantId p = tenantId u) (project_rows d)))
            | Storage \<Rightarrow> sum_list (map file_size (filter (\<lambda>f. file_tenantId f = tenantId u) (files d))))"
  note c = checkAccountLimits_three_tiers
    [OF h [THEN conjunct1] h [THEN conjunct2, THEN conjunct1] h [THEN conjunct2, THEN conjunct2]]
  { assume "mx = - 1"
    with c show "checkAccountLimits rt d (Some u) = Next ()" by simp }
  { assume "mx \<noteq> - 1 \<and> mx \<le> cur"
    with c show "checkAccountLimits rt d (Some u) =
           Respond \<lparr>status = 403, body = AccountLimitExceeded (accountType u) rt cur mx sg\<rparr>"
      by simp }
  { assume "mx \<noteq> - 1 \<and> cur < mx"
    with c show "checkAccountLimits rt d (Some u) = Next ()" by simp }
next
  assume h: "find (\<lambda>w. user_email w = em) (users d) = None
      \<and> find (\<lambda>x. tenant_id x = tid) (tenants d) = Some t \<and> tenant_isActive t
      \<and> (acct, rmx) \<in>
           {(''SIMPLE'', maxSimpleAccounts t), (''COMPOSITE'', maxCompositeAccounts t),
             (''MANAGERIAL'', maxManagerialAccounts t)}
      \<and> rcur = int (length (filter (\<lambda>w. user_tenantId w = tid \<and> user_accountType w = acct) (users d)))"
  note h1 = h [THEN conjunct1]
    and h2 = h [THEN conjunct2, THEN conjunct1]
    and h3 = h [THEN conjunct2, THEN conjunct2, THEN conjunct1]
    and h4 = h [THEN conjunct2, THEN conjunct2, THEN conjunct2, THEN conjunct1]
    and h5 = h [THEN conjunct2, THEN conjunct2, THEN conjunct2, THEN conjunct2]
  note r = register_three_tiers [OF h1 h2 h3 h4 h5, of bh newId pw nm]
  { assume "rmx = - 1"
    with r(2) show "map_sum id status (snd (register d bh newId em pw nm tid acct)) = Inr 201"
      by simp }
  { assume "rmx \<noteq> - 1 \<and> rmx \<le> rcur"
    with r(1) show "register d bh newId em pw nm tid acct =
           (d, Inl (AppError (LimiteDeContas acct rmx) 403))" by simp }
  { assume "rmx \<noteq> - 1 \<and> rcur < rmx"
    with r(2) show "map_sum id status (snd (register d bh newId em pw nm tid acct)) = Inr 201"
      by simp }
next
  assume h: "find (\<lambda>w. user_email w = em) (users d) = None
      \<and> find (\<lambda>x. tenant_id x = tid) (tenants d) = Some t
      \<and> (acct, rmx) \<in>
           {(''SIMPLE'', maxSimpleAccounts t), (''COMPOSITE'', maxCompositeAccounts t),
             (''MANAGERIAL'', maxManagerialAccounts t)}
      \<and> rcur = int (length (filter (\<lambda>w. user_tenantId w = tid \<and> user_accountType w = acct) (users d)))"
  note h1 = h [THEN conjunct1]
    and h2 = h [THEN conjunct2, THEN conjunct1]
    and h4 = h [THEN conjunct2, THEN conjunct2, THEN conjunct1]
    and h5 = h [THEN conjunct2, THEN conjunct2, THEN conjunct2]
  note r = admin_three_tiers [OF h1 h2 h4 h5, of bh newId pw nm]
  { assume "rmx = - 1"
    with r(2) show "map_sum id status (snd (admin_create_user d bh newId tid em pw nm acct)) = Inr 201"
      by simp }
  { assume "rmx \<noteq> - 1 \<and> rmx \<le> rcur"
    with r(1) show "admin_create_user d bh newId tid em pw nm acct =
           (d, Inl (AppError (LimiteDeContasAdmin acct rmx) 403))" by simp }
  { assume "rmx \<noteq> - 1 \<and> rcur < rmx"
    with r(2) show "map_sum id status (snd (admin_create_user d bh newId tid em pw nm acct)) = Inr 201"
      by simp }
qed

lemmas quota_fixture_defs = db_quota_def tenant_a_def tenant_b_def tid_a_def tid_b_def
  quota_user_def quota_file_def ann_req_def cy_req_def dee_req_def

lemma quota_counts:
  "int (length (filter (\<lambda>c. client_tenantId c = tid_a) (client_rows db_quota))) = 50"
  "int (length (filter (\<lambda>c. client_tenantId c = tid_b) (client_rows db_quota))) = 3"
  "int (length (filter (\<lambda>p. project_tenantId p = tid_a) (project_rows db_quota))) = 24"
  "sum_list (map file_size (filter (\<lambda>f. file_tenantId f = tid_a) (files db_quota))) = 104857600"
  "int (length (filter (\<lambda>w. user_tenantId w = tid_a \<and> user_accountType w = ''SIMPLE'')
                  (users db_quota))) = 2"
  "int (length (filter (\<lambda>w. user_tenantId w = tid_b \<and> user_accountType w = ''COMPOSITE'')
                  (users db_quota))) = 0"
  "int (length (filter (\<lambda>w. user_tenantId w = tid_a \<and> user_accountType w = ''MANAGERIAL'')
                  (users db_quota))) = 1"
  by (simp_all add: quota_fixture_defs filter_map o_def)

lemma quota_lookups:
  "find (\<lambda>w. user_email w = ''eve@acme.com'') (users db_quota) = None"
  "find (\<lambda>x. tenant_id x = tid_a) (tenants db_quota) = Some tenant_a"
  "find (\<lambda>x. tenant_id x = tid_b) (tenants db_quota) = Some tenant_b"
  "tenant_isActive tenant_a" "tenant_isActive tenant_b"
  "maxSimpleAccounts tenant_a = 2" "maxCompositeAccounts tenant_b = 1"
  "maxManagerialAccounts tenant_a = - 1"
  "tenantId ann_req = tid_a" "tenantId cy_req = tid_b" "tenantId dee_req = tid_a"
  "accountType ann_req = ''SIMPLE''" "accountType cy_req = ''SIMPLE''"
  "accountType dee_req = ''MANAGERIAL''" "tid_a \<noteq> []" "tid_b \<noteq> []"
  by (simp_all add: quota_fixture_defs)

theorem quota_check_witness:
  "checkAccountLimits Clients db_quota (Some ann_req) =
     Respond \<lparr>status = 403,
              body = AccountLimitExceeded ''SIMPLE'' Clients 50 50 [''COMPOSITE'', ''MANAGERIAL'']\<rparr>
   \<and> checkAccountLimits Clients db_quota (Some cy_req) = Next ()
   \<and> checkAccountLimits Clients db_quota (Some dee_req) = Next ()
   \<and> checkAccountLimits Projects db_quota (Some ann_req) = Next ()
   \<and> checkAccountLimits Storage db_quota (Some ann_req) =
     Respond \<lparr>status = 403,
              body = AccountLimitExceeded ''SIMPLE'' Storage 104857600 104857600
                       [''COMPOSITE'', ''MANAGERIAL'']\<rparr>
   \<and> register db_quota hash0 ''ue'' ''eve@acme.com'' ''secret1'' ''Eve'' tid_a ''SIMPLE'' =
       (db_quota, Inl (AppError (LimiteDeContas ''SIMPLE'' 2) 403))
   \<and> admin_create_user db_quota hash0 ''ue'' tid_a ''eve@acme.com'' ''secret1'' ''Eve'' ''SIMPLE'' =
       (db_quota, Inl (AppError (LimiteDeContasAdmin ''SIMPLE'' 2) 403))
   \<and> map_sum id status
        (snd (register db_quota hash0 ''ue'' ''eve@acme.com'' ''secret1'' ''Eve'' tid_b
                ''COMPOSITE'')) = Inr 201
   \<and> map_sum id status
        (snd (admin_create_user db_quota hash0 ''ue'' tid_b ''eve@acme.com'' ''secret1'' ''Eve''
                ''COMPOSITE'')) = Inr 201
   \<and> map_sum id status
        (snd (register db_quota hash0 ''ue'' ''eve@acme.com'' ''secret1'' ''Eve'' tid_a
                ''MANAGERIAL'')) = Inr 201
   \<and> map_sum id status
        (snd (admin_create_user db_quota hash0 ''ue'' tid_a ''eve@acme.com'' ''secret1'' ''Eve''
                ''MANAGERIAL'')) = Inr 201"
proof -
  note f = quota_counts quota_lookups
  from quota_check [where u = ann_req and rt = Clients and mx = 50
      and sg = "[''COMPOSITE'', ''MANAGERIAL'']" and cur = 50 and d = db_quota
      and em = "''eve@acme.com''" and tid = tid_a and t = tenant_a and acct = "''SIMPLE''"
      and rmx = 2 and rcur = 2 and bh = hash0 and newId = "''ue''" and pw = "''secret1''"
      and nm = "''Eve''"]
  have A: "checkAccountLimits Clients db_quota (Some ann_req) =
     Respond \<lparr>status = 403,
              body = AccountLimitExceeded ''SIMPLE'' Clients 50 50 [''COMPOSITE'', ''MANAGERIAL'']\<rparr>
     \<and> register db_quota hash0 ''ue'' ''eve@acme.com'' ''secret1'' ''Eve'' tid_a ''SIMPLE'' =
       (db_quota, Inl (AppError (LimiteDeContas ''SIMPLE'' 2) 403))
     \<and> admin_create_user db_quota hash0 ''ue'' tid_a ''eve@acme.com'' ''secret1'' ''Eve'' ''SIMPLE'' =
       (db_quota, Inl (AppError (LimiteDeContasAdmin ''SIMPLE'' 2) 403))"
    by (simp add: f)
  from quota_check [where u = cy_req and rt = Clients and mx = 50
      and sg = "[''COMPOSITE'', ''MANAGERIAL'']" and cur = 3 and d = db_quota
      and em = "''eve@acme.com''" and tid = tid_b and t = tenant_b and acct = "''COMPOSITE''"
      and rmx = 1 and rcur = 0 and bh = hash0 and newId = "''ue''" and pw = "''secret1''"
      and nm = "''Eve''"]
  have B: "checkAccountLimits Clients db_quota (Some cy_req) = Next ()
     \<and> map_sum id status
        (snd (register db_quota hash0 ''ue'' ''eve@acme.com'' ''secret1'' ''Eve'' tid_b
                ''COMPOSITE'')) = Inr 201
     \<and> map_sum id status
        (snd (admin_create_user db_quota hash0 ''ue'' tid_b ''eve@acme.com'' ''secret1'' ''Eve''
                ''COMPOSITE'')) = Inr 201"
    by (simp add: f)
  from quota_check [where u = dee_req and rt = Clients and mx = "- 1"
      and sg = "[]" and cur = 50 and d = db_quota
      and em = "''eve@acme.com''" and tid = tid_a and t = tenant_a and acct = "''MANAGERIAL''"
      and rmx = "- 1" and rcur = 1 and bh = hash0 and newId = "''ue''" and pw = "''secret1''"
      and nm = "''Eve''"]
  have C: "checkAccountLimits Clients db_quota (Some dee_req) = Next ()
     \<and> map_sum id status
        (snd (register db_quota hash0 ''ue'' ''eve@acme.com'' ''secret1'' ''Eve'' tid_a
                ''MANAGERIAL'')) = Inr 201
     \<and> map_sum id status
        (snd (admin_create_user db_quota hash0 ''ue'' tid_a ''eve@acme.com'' ''secret1'' ''Eve''
                ''MANAGERIAL'')) = Inr 201"
    by (simp add: f)
  from quota_check [where u = ann_req and rt = Projects and mx = 25
      and sg = "[''COMPOSITE'', ''MANAGERIAL'']" and cur = 24 and d = db_quota]
  have D: "checkAccountLimits Projects db_quota (Some ann_req) = Next ()"
    by (simp add: f)
  from quota_check [where u = ann_req and rt = Storage and mx = 104857600
      and sg = "[''COMPOSITE'', ''MANAGERIAL'']" and cur = 104857600 and d = db_quota]
  have E: "checkAccountLimits Storage db_quota (Some ann_req) =
     Respond \<lparr>status = 403,
              body = AccountLimitExceeded ''SIMPLE'' Storage 104857600 104857600
                       [''COMPOSITE'', ''MANAGERIAL'']\<rparr>"
    by (simp add: f)
  from A B C D E show ?thesis by simp
qed

section \<open>Lookups in tables\<close>

lemma find_Some_mem: "find P xs = Some x \<Longrightarrow> x \<in> set xs \<and> P x"
  by (auto simp: find_Some_iff)

lemma find_map_option: "find P (map f xs) = map_option f (find (\<lambda>x. P (f x)) xs)"
  by (induction xs) auto

lemma find_by_key_distinct:
  "distinct (map key xs) \<Longrightarrow> x \<in> set xs \<Longrightarrow> find (\<lambda>y. key y = key x) xs = Some x"
  by (induction xs) (auto simp: rev_image_eqI)

section \<open>The tenant validator\<close>

text \<open>
  Claim C7, as stated, fails: for a tenant id with no tenant record the tenant
  middleware denies with status 404, not 403.
\<close>

theorem tenant_not_found_counterexample:
  "tenant_findUnique db0 (tenantId ghost_req) = None
   \<and> denial (tenantMiddleware db0 1000 (Some ghost_req)) =
       Some \<lparr>status = 404, body = AppErrorBody EmpresaNaoEncontrada\<rparr>
   \<and> map_option status (denial (tenantMiddleware db0 1000 (Some ghost_req))) \<noteq> Some 403"
  by (simp add: denial_def fixture_defs query_defs auth_defs)

text \<open>
  Claim C7, amended. When the tenant validator finds no tenant record for the tenant id
  of the request, the request is denied with status 404 and the message
  'Empresa nao encontrada'; an inactive tenant and an expired tenant are denied with
  status 403, each with a message of its own.
\<close>

theorem tenant_denial_statuses:
  "tenantId u \<noteq> [] \<longrightarrow>
     (tenant_findUnique d (tenantId u) = None \<longrightarrow>
        denial (tenantMiddleware d now (Some u)) =
          Some \<lparr>status = 404, body = AppErrorBody EmpresaNaoEncontrada\<rparr>)
   \<and> (tenant_findUnique d (tenantId u) = Some t \<and> \<not> tenant_isActive t \<longrightarrow>
        denial (tenantMiddleware d now (Some u)) =
          Some \<lparr>status = 403, body = AppErrorBody EmpresaInativa\<rparr>)
   \<and> (tenant_findUnique d (tenantId u) = Some t \<and> tenant_isActive t \<and> expired t now \<longrightarrow>
        denial (tenantMiddleware d now (Some u)) =
          Some \<lparr>status = 403, body = AppErrorBody PlanoExpirou\<rparr>)"
  by (simp add: denial_def tenantMiddleware_def)

theorem tenant_denial_statuses_witness:
  "tenant_findUnique db0 (tenantId ghost_req) = None
   \<and> denial (tenantMiddleware db0 1000 (Some ghost_req)) =
        Some \<lparr>status = 404, body = AppErrorBody EmpresaNaoEncontrada\<rparr>
   \<and> tenant_findUnique db_inactive (tenantId alice_req) = Some (tenant1\<lparr>tenant_isActive := False\<rparr>)
   \<and> denial (tenantMiddleware db_inactive 1000 (Some alice_req)) =
        Some \<lparr>status = 403, body = AppErrorBody EmpresaInativa\<rparr>
   \<and> tenant_findUnique db_expired (tenantId alice_req) = Some (tenant1\<lparr>expiresAt := Some 500\<rparr>)
   \<and> expired (tenant1\<lparr>expiresAt := Some 500\<rparr>) 1000
   \<and> denial (tenantMiddleware db_expired 1000 (Some alice_req)) =
        Some \<lparr>status = 403, body = AppErrorBody PlanoExpirou\<rparr>"
proof -
  have g: "tenantId ghost_req \<noteq> []" and a: "tenantId alice_req \<noteq> []"
    by (simp_all add: ghost_req_def alice_req_def)
  have h1: "tenant_findUnique db0 (tenantId ghost_req) = None"
    by (simp add: fixture_defs query_defs)
  have h2: "tenant_findUnique db_inactive (tenantId alice_req) =
              Some (tenant1\<lparr>tenant_isActive := False\<rparr>)"
    by (simp add: fixture_defs query_defs)
  have h3: "tenant_findUnique db_expired (tenantId alice_req) =
              Some (tenant1\<lparr>expiresAt := Some 500\<rparr>)"
    by (simp add: fixture_defs query_defs)
  have h4: "expired (tenant1\<lparr>expiresAt := Some 500\<rparr>) 1000"
    and h5: "tenant_isActive (tenant1\<lparr>expiresAt := Some 500\<rparr>)"
    by (simp_all add: expired_def tenant1_def)
  from tenant_denial_statuses [where u = ghost_req and d = db0 and now = 1000] g h1
  have A: "denial (tenantMiddleware db0 1000 (Some ghost_req)) =
        Some \<lparr>status = 404, body = AppErrorBody EmpresaNaoEncontrada\<rparr>" by simp
  from tenant_denial_statuses [where u = alice_req and d = db_inactive and now = 1000
      and t = "tenant1\<lparr>tenant_isActive := False\<rparr>"] a h2
  have B: "denial (tenantMiddleware db_inactive 1000 (Some alice_req)) =
        Some \<lparr>status = 403, body = AppErrorBody EmpresaInativa\<rparr>" by simp
  from tenant_denial_statuses [where u = alice_req and d = db_expired and now = 1000
      and t = "tenant1\<lparr>expiresAt := Some 500\<rparr>"] a h3 h4 h5
  have C: "denial (tenantMiddleware db_expired 1000 (Some alice_req)) =
        Some \<lparr>status = 403, body = AppErrorBody PlanoExpirou\<rparr>" by simp
  from A B C h1 h2 h3 h4 show ?thesis by simp
qed

section \<open>Facts about authenticateToken and the login\<close>

lemma createAuditLog_tables:
  "users (createAuditLog d a b c r i ds) = users d"
  "tenants (createAuditLog d a b c r i ds) = tenants d"
  "files (createAuditLog d a b c r i ds) = files d"
  by (simp_all add: createAuditLog_def auditLog_create_def split: option.splits)

lemma authenticateToken_inactive_tenant:
  assumes "jwt_verify tok (jwt_secret e) now = Inr c"
    and "user_findUnique d (claim_userId c) = Some u"
    and "user_isActive u"
    and "user_tenant d u = Some t"
    and "\<not> tenant_isActive t"
  shows "authenticateToken e d now (Some tok) = NextError (AppError EmpresaInativa 403)"
  using assms
  by (simp add: authenticateToken_def authenticateToken_try_def
        instanceof_JsonWebTokenError_def instanceof_TokenExpiredError_def)

lemma authenticateToken_Next:
  assumes "authenticateToken e d now tok = Next ru"
  obtains c w t where "tok = Some (Signed c (jwt_secret e))"
    "user_findUnique d (claim_userId c) = Some w" "user_isActive w"
    "user_tenant d w = Some t" "tenant_isActive t" "\<not> expired t now"
    "ru = \<lparr>userId = user_id w, tenantId = user_tenantId w, accountType = user_accountType w\<rparr>"
  using assms
  by (auto simp: authenticateToken_def authenticateToken_try_def jwt_verify_def
           split: option.splits sum.splits if_splits token.splits)

lemma login_success:
  assumes "login e d0 now0 cmp ip em pw = (d1, Inr r)"
  obtains u t where
    "find (\<lambda>u. user_email u = em \<and> user_isActive u) (users d0) = Some u"
    "user_tenant d0 u = Some t" "tenant_isActive t" "\<not> expired t now0"
    "cmp pw (passwordHash u)"
    "d1 = createAuditLog (user_update_lastLogin d0 (user_id u) now0) (user_id u)
            (user_tenantId u) ''LOGIN'' ''USER'' (user_id u)
            [(''email'', Str (user_email u)), (''ip'', Str ip)]"
    "r = \<lparr>status = 200,
          body = LoginBody (jwt_sign (access_claims u) (jwt_secret e) h24 now0)
                   (jwt_sign (refresh_claims u) (jwt_refresh_secret e) d30 now0)
                   \<lparr>info_id = user_id u, info_email = user_email u, info_name = user_name u,
                    info_accountType = user_accountType u,
                    info_tenantId = Some (user_tenantId u), info_tenant = Some t\<rparr>\<rparr>"
  using assms
  by (auto simp: login_def Let_def split: option.splits if_splits)

lemma issued_token_verifies:
  "now1 div 1000 < now0 div 1000 + ttl \<Longrightarrow>
     jwt_verify (jwt_sign c k ttl now0) k now1 =
       Inr (c\<lparr>iat := now0 div 1000, exp := now0 div 1000 + ttl\<rparr>)"
  by (simp add: jwt_verify_def jwt_sign_def)

section \<open>Tenant state is checked on every request\<close>

text \<open>
  Claim C4. Tenant state is read from the store on every authenticated request: when a
  tenant is flagged inactive after a login issued an access token, a protected request
  bearing that token before its expiry is denied with 403 'Empresa inativa', by
  \<open>authenticateToken\<close> and so by the guards of the tenant and upload routes.
\<close>

theorem tenant_deactivation_denies_next_request:
  assumes pk: "distinct (map user_id (users d0))"
    and issued: "login e d0 now0 cmp ip em pw =
                   (d1, Inr \<lparr>status = 200, body = LoginBody tok rtok info\<rparr>)"
    and tenant: "info_tenantId info = Some tid"
    and fresh: "now1 div 1000 < now0 div 1000 + h24"
  shows "authenticateToken e (tenant_update_isActive d1 tid False) now1 (Some tok) =
           NextError (AppError EmpresaInativa 403)
       \<and> denial (api_tenant_guards e (tenant_update_isActive d1 tid False) now1 (Some tok) m) =
           Some \<lparr>status = 403, body = AppErrorBody EmpresaInativa\<rparr>
       \<and> denial (api_upload_guards e (tenant_update_isActive d1 tid False) now1 (Some tok)) =
           Some \<lparr>status = 403, body = AppErrorBody EmpresaInativa\<rparr>"
proof -
  let ?d2 = "tenant_update_isActive d1 tid False"
  from issued obtain u t where
    f: "find (\<lambda>u. user_email u = em \<and> user_isActive u) (users d0) = Some u"
    and ut: "user_tenant d0 u = Some t"
    and d1: "d1 = createAuditLog (user_update_lastLogin d0 (user_id u) now0) (user_id u)
            (user_tenantId u) ''LOGIN'' ''USER'' (user_id u)
            [(''email'', Str (user_email u)), (''ip'', Str ip)]"
    and r: "\<lparr>status = 200, body = LoginBody tok rtok info\<rparr> = \<lparr>status = 200,
          body = LoginBody (jwt_sign (access_claims u) (jwt_secret e) h24 now0)
                   (jwt_sign (refresh_claims u) (jwt_refresh_secret e) d30 now0)
                   \<lparr>info_id = user_id u, info_email = user_email u, info_name = user_name u,
                    info_accountType = user_accountType u,
                    info_tenantId = Some (user_tenantId u), info_tenant = Some t\<rparr>\<rparr>"
    by (rule login_success)
  from r have tok: "tok = jwt_sign (access_claims u) (jwt_secret e) h24 now0"
    and info: "info_tenantId info = Some (user_tenantId u)" by simp_all
  from info tenant have tid: "tid = user_tenantId u" by simp
  from f have mem: "u \<in> set (users d0)" and act: "user_isActive u"
    using find_Some_mem [of _ "users d0" u] by auto
  from pk mem have byid: "find (\<lambda>y. user_id y = user_id u) (users d0) = Some u"
    by (rule find_by_key_distinct)
  let ?u' = "u\<lparr>lastLogin := Some now0\<rparr>"
  have users2: "users ?d2 = map (\<lambda>w. if user_id w = user_id u then w\<lparr>lastLogin := Some now0\<rparr> else w) (users d0)"
    by (simp add: tenant_update_isActive_def d1 createAuditLog_tables user_update_lastLogin_def)
  have tenants2: "tenants ?d2 =
      map (\<lambda>t. if tenant_id t = tid then t\<lparr>tenant_isActive := False\<rparr> else t) (tenants d0)"
    by (simp add: tenant_update_isActive_def d1 createAuditLog_tables user_update_lastLogin_def)
  have fu: "user_findUnique ?d2 (user_id u) = Some ?u'"
    using byid by (simp add: user_findUnique_def users2 find_map_option if_distrib cong: if_cong)
  from ut have ft: "find (\<lambda>x. tenant_id x = tid) (tenants d0) = Some t"
    by (simp add: user_tenant_def tenant_findUnique_def tid)
  then have tt: "tenant_id t = tid" using find_Some_mem [of _ "tenants d0" t] by auto
  have ft2: "user_tenant ?d2 ?u' = Some (t\<lparr>tenant_isActive := False\<rparr>)"
    using ft tt
    by (simp add: user_tenant_def tenant_findUnique_def tenants2 find_map_option tid [symmetric]
          if_distrib cong: if_cong)
  have v: "jwt_verify tok (jwt_secret e) now1 =
      Inr (access_claims u\<lparr>iat := now0 div 1000, exp := now0 div 1000 + h24\<rparr>)"
    unfolding tok using fresh by (rule issued_token_verifies)
  have A: "authenticateToken e ?d2 now1 (Some tok) = NextError (AppError EmpresaInativa 403)"
    by (rule authenticateToken_inactive_tenant [OF v _ _ ft2])
       (simp_all add: access_claims_def fu act)
  then show ?thesis
    by (simp add: api_tenant_guards_def api_upload_guards_def denial_def)
qed

theorem tenant_deactivation_denies_next_request_witness:
  "distinct (map user_id (users db0))
   \<and> login env0 db0 0 cmp0 ''10.0.0.1'' ''alice@acme.com'' ''secret1'' =
       (db_logged, Inr \<lparr>status = 200, body = LoginBody alice_token alice_refresh alice_info\<rparr>)
   \<and> info_tenantId alice_info = Some ''t1''
   \<and> (1000 :: int) div 1000 < 0 div 1000 + h24
   \<and> authenticateToken env0 (tenant_update_isActive db_logged ''t1'' False) 1000
        (Some alice_token) = NextError (AppError EmpresaInativa 403)
   \<and> denial (api_tenant_guards env0 (tenant_update_isActive db_logged ''t1'' False) 1000
        (Some alice_token) ''crm'') = Some \<lparr>status = 403, body = AppErrorBody EmpresaInativa\<rparr>
   \<and> denial (api_upload_guards env0 (tenant_update_isActive db_logged ''t1'' False) 1000
        (Some alice_token)) = Some \<lparr>status = 403, body = AppErrorBody EmpresaInativa\<rparr>"
proof -
  have pk: "distinct (map user_id (users db0))"
    by (simp add: db0_def alice_def bob_def carol_def)
  have s: "snd (login env0 db0 0 cmp0 ''10.0.0.1'' ''alice@acme.com'' ''secret1'') =
      Inr \<lparr>status = 200, body = LoginBody alice_token alice_refresh alice_info\<rparr>"
    by (simp add: login_def createAuditLog_def auditLog_create_def user_update_lastLogin_def
          Let_def fixture_defs token_defs query_defs)
  have l: "login env0 db0 0 cmp0 ''10.0.0.1'' ''alice@acme.com'' ''secret1'' =
       (db_logged, Inr \<lparr>status = 200, body = LoginBody alice_token alice_refresh alice_info\<rparr>)"
    using s by (simp add: db_logged_def prod_eq_iff)
  have i: "info_tenantId alice_info = Some ''t1''"
    by (simp add: alice_info_def)
  have f: "(1000 :: int) div 1000 < 0 div 1000 + h24"
    by (simp add: h24_def)
  from tenant_deactivation_denies_next_request [OF pk l i f, where m = "''crm''"] pk l i f
  show ?thesis by simp
qed

section \<open>The account tier of a request\<close>

text \<open>
  Claim C2, as stated, fails: a token issued while the principal was SIMPLE, presented
  after the store changed her to MANAGERIAL, passes the gate of a module that only
  MANAGERIAL has; the gate would deny the tier encoded in the token.
\<close>

theorem tier_snapshot_counterexample:
  "snd (login env0 db0 0 cmp0 ''10.0.0.1'' ''alice@acme.com'' ''secret1'') =
     Inr \<lparr>status = 200,
          body = LoginBody alice_token alice_refresh
                   \<lparr>info_id = ''u1'', info_email = ''alice@acme.com'', info_name = Some ''Alice'',
                    info_accountType = ''SIMPLE'', info_tenantId = Some ''t1'',
                    info_tenant = Some tenant1\<rparr>\<rparr>
   \<and> alice_token =
       Signed \<lparr>claim_userId = ''u1'', claim_tenantId = ''t1'',
               claim_accountType = Some ''SIMPLE'', claim_type = None, iat = 0, exp = 86400\<rparr>
         ''your_jwt_secret_key''
   \<and> user_findUnique db_promoted ''u1'' = Some (alice\<lparr>user_accountType := ''MANAGERIAL''\<rparr>)
   \<and> api_tenant_guards env0 db_promoted 1000 (Some alice_token) ''user_management'' =
       Next (\<lparr>userId = ''u1'', tenantId = ''t1'', accountType = ''MANAGERIAL''\<rparr>, tenant1)
   \<and> checkAccountAccess ''user_management''
        (Some \<lparr>userId = ''u1'', tenantId = ''t1'', accountType = ''SIMPLE''\<rparr>) =
       Respond \<lparr>status = 403,
                body = AccountAccessDenied ''SIMPLE'' ''user_management''
                         [''crm'', ''clients'', ''projects'', ''tasks'', ''billing'',
                          ''basic_settings'']
                         [''MANAGERIAL'']\<rparr>"
  by (simp add: login_def api_tenant_guards_def checkAccountAccess_def checkAccountAccess_try_def
        ACCOUNT_MODULES_def getSuggestedAccounts_def
        createAuditLog_def auditLog_create_def user_update_lastLogin_def
        Let_def fixture_defs token_defs query_defs auth_defs)

text \<open>
  Claim C2, amended. For every authenticated request the account tier used for the
  capability check is the \<open>accountType\<close> of the principal's row, read from the
  store on that request; the tier encoded in the token does not influence the outcome,
  so a change of tier takes effect on the next request with the old token.
\<close>

theorem tier_read_from_store:
  "(authenticateToken e d now (Some (Signed c k)) = Next ru \<longrightarrow>
      (\<exists>w. user_findUnique d (claim_userId c) = Some w \<and> accountType ru = user_accountType w))
   \<and> authenticateToken e d now (Some (Signed (c\<lparr>claim_accountType := a\<rparr>) k)) =
       authenticateToken e d now (Some (Signed c k))
   \<and> (api_tenant_guards e d now (Some (Signed c k)) m = Next (ru, t) \<longrightarrow>
      (\<exists>w ms. user_findUnique d (claim_userId c) = Some w \<and> accountType ru = user_accountType w
         \<and> map_of ACCOUNT_MODULES (user_accountType w) = Some ms \<and> m \<in> set ms))"
proof (intro conjI impI)
  assume "authenticateToken e d now (Some (Signed c k)) = Next ru"
  then obtain c' w where "Some (Signed c k) = Some (Signed c' (jwt_secret e))"
    "user_findUnique d (claim_userId c') = Some w"
    "ru = \<lparr>userId = user_id w, tenantId = user_tenantId w, accountType = user_accountType w\<rparr>"
    by (rule authenticateToken_Next)
  then show "\<exists>w. user_findUnique d (claim_userId c) = Some w \<and> accountType ru = user_accountType w"
    by auto
next
  show "authenticateToken e d now (Some (Signed (c\<lparr>claim_accountType := a\<rparr>) k)) =
       authenticateToken e d now (Some (Signed c k))"
    by (simp add: authenticateToken_def authenticateToken_try_def jwt_verify_def)
next
  assume g: "api_tenant_guards e d now (Some (Signed c k)) m = Next (ru, t)"
  then have au: "authenticateToken e d now (Some (Signed c k)) = Next ru"
    and ga: "checkAccountAccess m (Some ru) = Next ()"
    by (auto simp: api_tenant_guards_def split: outcome.splits)
  from au obtain c' w where "Some (Signed c k) = Some (Signed c' (jwt_secret e))"
    "user_findUnique d (claim_userId c') = Some w"
    "ru = \<lparr>userId = user_id w, tenantId = user_tenantId w, accountType = user_accountType w\<rparr>"
    by (rule authenticateToken_Next)
  then have w: "user_findUnique d (claim_userId c) = Some w"
    "accountType ru = user_accountType w" by auto
  from ga w(2) obtain ms where "map_of ACCOUNT_MODULES (user_accountType w) = Some ms" "m \<in> set ms"
    by (auto simp: checkAccountAccess_def checkAccountAccess_try_def
             split: option.splits if_splits)
  with w show "\<exists>w ms. user_findUnique d (claim_userId c) = Some w \<and> accountType ru = user_accountType w
         \<and> map_of ACCOUNT_MODULES (user_accountType w) = Some ms \<and> m \<in> set ms"
    by auto
qed

theorem tier_read_from_store_witness:
  "alice_token =
       Signed \<lparr>claim_userId = ''u1'', claim_tenantId = ''t1'',
               claim_accountType = Some ''SIMPLE'', claim_type = None, iat = 0, exp = 86400\<rparr>
         ''your_jwt_secret_key''
   \<and> authenticateToken env0 db_promoted 1000 (Some alice_token) =
       Next \<lparr>userId = ''u1'', tenantId = ''t1'', accountType = ''MANAGERIAL''\<rparr>
   \<and> authenticateToken env0 db_promoted 1000
        (Some (Signed \<lparr>claim_userId = ''u1'', claim_tenantId = ''t1'',
                       claim_accountType = Some ''COMPOSITE'', claim_type = None,
                       iat = 0, exp = 86400\<rparr> ''your_jwt_secret_key'')) =
       Next \<lparr>userId = ''u1'', tenantId = ''t1'', accountType = ''MANAGERIAL''\<rparr>"
proof -
  let ?c = "\<lparr>claim_userId = ''u1'', claim_tenantId = ''t1'',
             claim_accountType = Some ''SIMPLE'', claim_type = None, iat = 0, exp = 86400\<rparr>"
  have tk: "alice_token = Signed ?c ''your_jwt_secret_key''"
    by (simp add: fixture_defs token_defs)
  have A: "authenticateToken env0 db_promoted 1000 (Some (Signed ?c ''your_jwt_secret_key'')) =
       Next \<lparr>userId = ''u1'', tenantId = ''t1'', accountType = ''MANAGERIAL''\<rparr>"
    by (simp add: fixture_defs token_defs query_defs auth_defs)
  from tier_read_from_store [where e = env0 and d = db_promoted and now = 1000 and c = ?c
      and k = "''your_jwt_secret_key''" and a = "Some ''COMPOSITE''"] A
  have B: "authenticateToken env0 db_promoted 1000
        (Some (Signed \<lparr>claim_userId = ''u1'', claim_tenantId = ''t1'',
                       claim_accountType = Some ''COMPOSITE'', claim_type = None,
                       iat = 0, exp = 86400\<rparr> ''your_jwt_secret_key'')) =
       Next \<lparr>userId = ''u1'', tenantId = ''t1'', accountType = ''MANAGERIAL''\<rparr>"
    by simp
  from A B tk show ?thesis by simp
qed

section \<open>Token kinds\<close>

text \<open>
  Claim C8, as stated, fails: when one secret is configured for both kinds of token, the
  refresh token the login issues passes \<open>authenticateToken\<close> and the whole guard
  chain of a tenant route, yielding the principal's claims. With the default secrets a
  token of the wrong kind is answered exactly as a malformed token is, with no error
  of its own.
\<close>

theorem token_confusion_counterexample:
  "snd (login env_same db0 0 cmp0 ''10.0.0.1'' ''alice@acme.com'' ''secret1'') =
     Inr \<lparr>status = 200,
          body = LoginBody (jwt_sign (access_claims alice) ''k'' h24 0) refresh_same
                   \<lparr>info_id = ''u1'', info_email = ''alice@acme.com'', info_name = Some ''Alice'',
                    info_accountType = ''SIMPLE'', info_tenantId = Some ''t1'',
                    info_tenant = Some tenant1\<rparr>\<rparr>
   \<and> refresh_same =
       Signed \<lparr>claim_userId = ''u1'', claim_tenantId = ''t1'', claim_accountType = None,
               claim_type = Some ''refresh'', iat = 0, exp = 2592000\<rparr> ''k''
   \<and> authenticateToken env_same db0 1000 (Some refresh_same) = Next alice_req
   \<and> api_tenant_guards env_same db0 1000 (Some refresh_same) ''crm'' = Next (alice_req, tenant1)
   \<and> authenticateToken env0 db0 1000 (Some alice_refresh) =
       authenticateToken env0 db0 1000 (Some Malformed)
   \<and> refresh env0 db0 1000 (Some alice_token) = refresh env0 db0 1000 (Some Malformed)"
  by (simp add: login_def api_tenant_guards_def checkAccountAccess_def checkAccountAccess_try_def
        ACCOUNT_MODULES_def createAuditLog_def auditLog_create_def user_update_lastLogin_def
        refresh_def refresh_try_def Let_def fixture_defs token_defs query_defs auth_defs)

text \<open>
  Claim C8, amended. When the refresh secret differs from the access secret, every token
  signed with the refresh secret is rejected by the access check with 401
  'Token invalido' (the error of any invalid token) and yields no claims; every token
  that does not carry the refresh type is rejected by the refresh operation with 401
  'Refresh token invalido', whatever the secrets.
\<close>

theorem token_kinds_rejected:
  "(jwt_refresh_secret e \<noteq> jwt_secret e \<longrightarrow>
      authenticateToken e d now (Some (Signed c (jwt_refresh_secret e))) =
        NextError (AppError TokenInvalido 401))
   \<and> (claim_type c \<noteq> Some ''refresh'' \<longrightarrow>
      refresh e d now (Some (Signed c k)) = Inl (AppError RefreshTokenInvalido 401))"
  by (simp add: authenticateToken_def authenticateToken_try_def jwt_verify_def
        instanceof_JsonWebTokenError_def refresh_def refresh_try_def split: sum.splits)

theorem token_kinds_rejected_witness:
  "jwt_refresh_secret env0 = ''your_refresh_secret_key_super_secure_2024_production''
   \<and> jwt_secret env0 = ''your_jwt_secret_key''
   \<and> alice_refresh = Signed (refresh_claims alice\<lparr>iat := 0, exp := 2592000\<rparr>) (jwt_refresh_secret env0)
   \<and> authenticateToken env0 db0 1000 (Some alice_refresh) = NextError (AppError TokenInvalido 401)
   \<and> alice_token = Signed (access_claims alice\<lparr>iat := 0, exp := 86400\<rparr>) (jwt_secret env0)
   \<and> claim_type (access_claims alice\<lparr>iat := 0, exp := 86400\<rparr>) = None
   \<and> refresh env0 db0 1000 (Some alice_token) = Inl (AppError RefreshTokenInvalido 401)"
proof -
  have s1: "jwt_refresh_secret env0 = ''your_refresh_secret_key_super_secure_2024_production''"
    and s2: "jwt_secret env0 = ''your_jwt_secret_key''"
    by (simp_all add: jwt_secret_def jwt_refresh_secret_def env0_def)
  have n: "jwt_refresh_secret env0 \<noteq> jwt_secret env0"
    by (simp add: s1 s2)
  have r: "alice_refresh =
      Signed (refresh_claims alice\<lparr>iat := 0, exp := 2592000\<rparr>) (jwt_refresh_secret env0)"
    by (simp add: alice_refresh_def jwt_sign_def d30_def)
  have t: "alice_token = Signed (access_claims alice\<lparr>iat := 0, exp := 86400\<rparr>) (jwt_secret env0)"
    by (simp add: alice_token_def jwt_sign_def h24_def)
  have ty: "claim_type (access_claims alice\<lparr>iat := 0, exp := 86400\<rparr>) = None"
    by (simp add: access_claims_def)
  from token_kinds_rejected [where e = env0 and d = db0 and now = 1000
      and c = "refresh_claims alice\<lparr>iat := 0, exp := 2592000\<rparr>"] n r
  have A: "authenticateToken env0 db0 1000 (Some alice_refresh) =
      NextError (AppError TokenInvalido 401)" by simp
  from token_kinds_rejected [where e = env0 and d = db0 and now = 1000
      and c = "access_claims alice\<lparr>iat := 0, exp := 86400\<rparr>" and k = "jwt_secret env0"] ty t
  have B: "refresh env0 db0 1000 (Some alice_token) = Inl (AppError RefreshTokenInvalido 401)"
    by simp
  from A B s1 s2 r t ty show ?thesis by simp
qed

section \<open>The refresh operation\<close>

lemma refresh_mints_only_if:
  assumes "refresh e d now tok = Inr r"
  shows "\<exists>c u t. tok = Some (Signed c (jwt_refresh_secret e)) \<and> now div 1000 < exp c
           \<and> claim_type c = Some ''refresh''
           \<and> user_findUnique d (claim_userId c) = Some u \<and> user_isActive u
           \<and> user_tenant d u = Some t \<and> tenant_isActive t"
  using assms
  by (auto simp: refresh_def refresh_try_def jwt_verify_def
           split: option.splits sum.splits if_splits token.splits)

text \<open>
  Claim C3. The refresh operation should mint a new access token only if the principal
  and the tenant are active and the tenant is unexpired, and a refresh for a deactivated
  principal should fail with the inactive error. Evaluated on the code: for a tenant
  whose \<open>expiresAt\<close> (500) is before the time of the refresh (1000) the handler
  answers 200 with a new access token, while \<open>authenticateToken\<close> rejects the same
  tenant as expired; and for a deactivated principal the answer is
  'Refresh token invalido', the \<open>catch\<close> having replaced the inactive error.
\<close>

theorem refresh_skips_tenant_expiry:
  "user_tenant db_expired alice = Some (tenant1\<lparr>expiresAt := Some 500\<rparr>)
   \<and> expired (tenant1\<lparr>expiresAt := Some 500\<rparr>) 1000
   \<and> refresh env0 db_expired 1000 (Some alice_refresh) =
        Inr \<lparr>status = 200,
             body = RefreshBody (jwt_sign (access_claims alice) (jwt_secret env0) h24 1000)\<rparr>
   \<and> authenticateToken env0 db_expired 1000 (Some alice_token) =
        NextError (AppError PlanoExpirou 403)
   \<and> refresh env0 db_alice_off 1000 (Some alice_refresh) =
        Inl (AppError RefreshTokenInvalido 401)"
  by (simp add: refresh_def refresh_try_def fixture_defs token_defs query_defs auth_defs)

section \<open>Tenant isolation of the file reads\<close>










section \<open>The audit write\<close>

lemma login_response_ignores_audit_failure:
  "snd (login e (d\<lparr>auditFailure := a\<rparr>) now cmp ip em pw) = snd (login e d now cmp ip em pw)"
  by (simp add: login_def Let_def query_defs split: option.splits)

lemma register_response_ignores_audit_failure:
  "snd (register (d\<lparr>auditFailure := a\<rparr>) bh newId em pw nm tid acct) =
     snd (register d bh newId em pw nm tid acct)"
  by (simp add: register_def Let_def query_defs register_currentCount_def split: option.splits)

text \<open>
  Claim C9. A failing audit write should leave the status and body of the triggering
  request unchanged. Evaluated on the code: the same upload is answered 200 with the
  file when the audit write succeeds and 500 when it fails, the file row having been
  created in both cases.
\<close>

theorem upload_audit_failure_changes_response:
  "snd (api_upload_single env0 db0 1000 (Some alice_token) ''f3'' (Some upload0)) =
     \<lparr>status = 200,
      body = FileUploadedBody
               \<lparr>item_id = ''f3'', item_filename = ''file-3.txt'', item_originalName = ''c.txt'',
                item_mimetype = ''text/plain'', item_size = 5,
                item_url = ''/api/upload/file/f3'', item_uploadedBy = None,
                item_createdAt = None\<rparr>\<rparr>
   \<and> snd (api_upload_single env0 db_audit_down 1000 (Some alice_token) ''f3'' (Some upload0)) =
     \<lparr>status = 500, body = ServerErrorBody\<rparr>
   \<and> map file_id (files (fst (api_upload_single env0 db_audit_down 1000 (Some alice_token)
                                  ''f3'' (Some upload0)))) = [''f1'', ''f2'', ''f3'']"
  by (simp add: api_upload_single_def api_upload_guards_def upload_single_def
        auditLog_create_def asyncHandler_def file_url_def Let_def
        fixture_defs token_defs query_defs auth_defs)

end
